theory Spec2Isabelle
  imports Complex_Main
begin

section \<open>Exceptions and their HTTP status\<close>

text \<open>
  The endpoints of \<^verbatim>\<open>main_api.py\<close> fail by raising. An \<^verbatim>\<open>HTTPException\<close> carries
  its status code and its detail; the detail is a string, except in the bulk endpoints
  where it is a dictionary holding a message and the list of per-item errors.
\<close>

datatype detail =
    Text string
  | BulkErrors string "(nat \<times> string) list"

datatype exn =
    HTTPException int detail
  | ValueError string
  | TypeError string
  | AttributeError string
  | IntegrityError
  | OverflowError string
  | RequestValidationError "(nat \<times> exn) list"

text \<open>
  The exception handlers registered on the application: \<^verbatim>\<open>value_error_handler\<close> answers
  400, \<^verbatim>\<open>integrity_error_handler\<close> answers 409, \<^verbatim>\<open>http_exception_handler\<close> answers
  the status of the exception. A body that does not validate against the declared model
  is answered 422 by the framework before the endpoint runs; every other exception, the
  \<^verbatim>\<open>OverflowError\<close> of the database driver among them, is answered 500.
\<close>

fun status_code :: "exn \<Rightarrow> int" where
  "status_code (HTTPException c d) = c"
| "status_code (ValueError m) = 400"
| "status_code (TypeError m) = 500"
| "status_code (AttributeError m) = 500"
| "status_code IntegrityError = 409"
| "status_code (OverflowError m) = 500"
| "status_code (RequestValidationError es) = 422"

section \<open>Formatting integers\<close>

text \<open>The f-strings of the endpoints print ids in decimal.\<close>

fun digits :: "nat \<Rightarrow> string" where
  "digits n =
     (if n < 10 then [''0123456789'' ! n]
      else digits (n div 10) @ [''0123456789'' ! (n mod 10)])"

definition str :: "int \<Rightarrow> string" where
  "str i = (if i < 0 then CHR ''-'' # digits (nat (- i)) else digits (nat i))"

section \<open>Data model\<close>

text \<open>
  \<^verbatim>\<open>sql_alchemy.py\<close>: three entity tables and two association tables. A date is kept as
  (year, month, day) and a time of day as (hour, minute, second); the price is a float
  in the source and is only stored and returned, never computed with.
\<close>

type_synonym dt_date = "nat \<times> nat \<times> nat"
type_synonym dt_time = "nat \<times> nat \<times> nat"

record Book =
  id :: int
  title :: string
  pages :: int
  stock :: int
  price :: real
  release :: dt_date
  time :: dt_time

record Author =
  id :: int
  name :: string

record Library =
  id :: int
  name :: string

text \<open>
  A row of \<^verbatim>\<open>books_1\<close> is the pair (authors, books); a row of \<^verbatim>\<open>books\<close> is the pair
  (books, library): the columns in the order of their declaration. Both columns together
  are the primary key of each association table.
\<close>

record tables =
  book :: "Book list"
  author :: "Author list"
  library :: "Library list"
  books_1 :: "(int \<times> int) list"
  books :: "(int \<times> int) list"

text \<open>\<^verbatim>\<open>pydantic_classes.py\<close>: the request models.\<close>

record BookCreate =
  pages :: int
  time :: dt_time
  stock :: int
  price :: real
  release :: dt_date
  title :: string
  authors :: "int list"
  library :: "int list"

record AuthorCreate =
  name :: string
  books :: "int list"

record LibraryCreate =
  name :: string
  books :: "int list"

definition validate_pages_1 :: "int \<Rightarrow> exn + int" where
  "validate_pages_1 v =
     (if \<not> (v > 10) then Inl (ValueError ''pages must be > 10'') else Inr v)"

text \<open>
  Building a \<^verbatim>\<open>BookCreate\<close> from a body whose fields have the declared types runs the
  field validator of \<^verbatim>\<open>pages\<close>; the other fields, and the two other models, have none.
\<close>

definition BookCreate_validate :: "BookCreate \<Rightarrow> exn + BookCreate" where
  "BookCreate_validate body =
     (case validate_pages_1 (BookCreate.pages body) of
        Inl e \<Rightarrow> Inl e
      | Inr v \<Rightarrow> Inr (body\<lparr>BookCreate.pages := v\<rparr>))"

section \<open>The persistence layer\<close>

text \<open>
  The two association tables are first-class \<^verbatim>\<open>Table\<close> objects in the source, handed to
  \<^verbatim>\<open>insert()\<close>, \<^verbatim>\<open>delete()\<close> and \<^verbatim>\<open>select()\<close>; the three mapped classes are handed to
  \<^verbatim>\<open>database.query\<close>.
\<close>

datatype assoc = Books_1 | Books

datatype entity = BookE | AuthorE | LibraryE

fun rows :: "assoc \<Rightarrow> tables \<Rightarrow> (int \<times> int) list" where
  "rows Books_1 t = books_1 t"
| "rows Books t = tables.books t"

fun set_rows :: "assoc \<Rightarrow> (int \<times> int) list \<Rightarrow> tables \<Rightarrow> tables" where
  "set_rows Books_1 rs t = t\<lparr>books_1 := rs\<rparr>"
| "set_rows Books rs t = t\<lparr>tables.books := rs\<rparr>"

fun ids :: "entity \<Rightarrow> tables \<Rightarrow> int list" where
  "ids BookE t = map Book.id (book t)"
| "ids AuthorE t = map Author.id (author t)"
| "ids LibraryE t = map Library.id (tables.library t)"

fun entity_name :: "entity \<Rightarrow> string" where
  "entity_name BookE = ''Book''"
| "entity_name AuthorE = ''Author''"
| "entity_name LibraryE = ''Library''"

text \<open>
  \<^verbatim>\<open>database.query(E).filter(E.id == i).first()\<close>, read for the id of the row it
  returns: \<open>None\<close> when no row has the id.
\<close>

definition query_first_id :: "entity \<Rightarrow> tables \<Rightarrow> int \<Rightarrow> int option" where
  "query_first_id E t i = find (\<lambda>j. j = i) (ids E t)"

text \<open>
  The store keeps an integer in 64 bits, signed. The models of \<^verbatim>\<open>pydantic_classes.py\<close>
  bound no integer, so a request can carry one outside that range; the database driver
  refuses to bind it to a statement and raises \<^verbatim>\<open>OverflowError\<close>, which no handler of the
  application catches.
\<close>

definition storable :: "int \<Rightarrow> bool" where
  "storable i = (- (2 ^ 63) \<le> i \<and> i < 2 ^ 63)"

definition overflow :: exn where
  "overflow = OverflowError ''Python int too large to convert to SQLite INTEGER''"

text \<open>
  The flush of a new or changed Book row binds its two integer columns. (The primary key
  of a row comes from the store, and the other columns are not integers.)
\<close>

definition flush_Book :: "Book \<Rightarrow> exn option" where
  "flush_Book b =
     (if storable (Book.pages b) \<and> storable (Book.stock b) then None else Some overflow)"

text \<open>
  The store assigns the integer primary key of a new entity row: one more than the
  largest key of the table, and 1 in an empty table.
\<close>

definition next_id :: "int list \<Rightarrow> int" where
  "next_id is = (if is = [] then 1 else Max (set is) + 1)"

text \<open>
  A session works on its own copy of the tables. \<^verbatim>\<open>commit\<close> makes the copy durable,
  \<^verbatim>\<open>rollback\<close> discards it. \<^verbatim>\<open>get_db\<close> opens one session per request and closes it
  when the endpoint returns or raises, so that what a request leaves behind is what it
  committed. After a flush has failed the session refuses every further flush until it
  is rolled back (\<open>deactive\<close>).
\<close>

record session =
  committed :: tables
  working :: tables
  deactive :: bool

definition SessionLocal :: "tables \<Rightarrow> session" where
  "SessionLocal db = \<lparr>committed = db, working = db, deactive = False\<rparr>"

definition commit :: "session \<Rightarrow> session" where
  "commit s = s\<lparr>committed := working s\<rparr>"

definition rollback :: "session \<Rightarrow> session" where
  "rollback s = s\<lparr>working := committed s, deactive := False\<rparr>"

definition get_db :: "(session \<Rightarrow> 'a \<times> session) \<Rightarrow> tables \<Rightarrow> 'a \<times> tables" where
  "get_db endpoint db = (case endpoint (SessionLocal db) of (r, s) \<Rightarrow> (r, committed s))"

text \<open>
  \<^verbatim>\<open>database.execute(tbl.insert().values(...))\<close>: the composite primary key rejects a
  pair that is already a row of the table. Foreign keys are declared but the store does
  not check them, which is why the endpoints look the referenced rows up themselves.
\<close>

definition execute_insert :: "assoc \<Rightarrow> int \<times> int \<Rightarrow> session \<Rightarrow> exn + session" where
  "execute_insert tbl r s =
     (if r \<in> set (rows tbl (working s)) then Inl IntegrityError
      else Inr (s\<lparr>working := set_rows tbl (rows tbl (working s) @ [r]) (working s)\<rparr>))"


text \<open>
  The ids linked to an owner: the \<open>other\<close> column of the rows whose \<open>owner\<close> column is the
  owner's id. The SELECT has no ORDER BY; the store answers it from the index of the
  primary key of the association table, which gives the ids of one owner in ascending
  order.
\<close>

definition linked ::
  "assoc \<Rightarrow> (int \<times> int \<Rightarrow> int) \<Rightarrow> (int \<times> int \<Rightarrow> int) \<Rightarrow> int \<Rightarrow> tables \<Rightarrow> int list" where
  "linked tbl owner other i t = sort (map other (filter (\<lambda>r. owner r = i) (rows tbl t)))"

text \<open>
  \<^verbatim>\<open>set(xs) - set(ys)\<close>, iterated: the elements of \<open>xs\<close> that are not in \<open>ys\<close>, each once.
  Python iterates a set in the order of the slots of its hash table, and the slot of an
  element depends on its hash, on the size of the table and on the elements that were
  put in before it. The program does not decide that order, so it is a parameter of the
  model: \<open>slot xs ys i\<close> is the rank of \<open>i\<close> in the iteration of \<^verbatim>\<open>set(xs) - set(ys)\<close>.
  Whatever \<open>slot\<close> is, the iteration visits every element of the difference once; every
  order of the difference is the iteration under some \<open>slot\<close>.
\<close>

type_synonym hash_order = "int list \<Rightarrow> int list \<Rightarrow> int \<Rightarrow> nat"

text \<open>The position of the first occurrence of an element in a list.\<close>

fun pos :: "int list \<Rightarrow> int \<Rightarrow> nat" where
  "pos [] i = 0"
| "pos (x # xs) i = (if x = i then 0 else Suc (pos xs i))"

definition set_minus :: "hash_order \<Rightarrow> int list \<Rightarrow> int list \<Rightarrow> int list" where
  "set_minus slot xs ys = sort_key (slot xs ys) (remdups (filter (\<lambda>x. x \<notin> set ys) xs))"

section \<open>Reconciling one relation in an update\<close>

text \<open>The 404 of a relation id that names no row.\<close>

definition not_found :: "entity \<Rightarrow> int \<Rightarrow> exn" where
  "not_found E i =
     HTTPException 404 (Text (entity_name E @ '' with ID '' @ str i @ '' not found''))"

text \<open>
  What the lookup of a relation id of the request body raises when the id names no row.
  The id is bound to the SELECT: one that the store cannot hold is refused by the driver
  before the store is asked, and no stored row has such an id; for any other id the
  SELECT answers no row and the endpoint raises its 404.
\<close>

definition missing :: "entity \<Rightarrow> int \<Rightarrow> exn" where
  "missing E i = (if storable i then not_found E i else overflow)"



section \<open>Book endpoints\<close>

record book_response =
  book :: Book
  author_ids :: "int list"
  library_ids :: "int list"

text \<open>
  The first loops of a create endpoint: the first id of the list that names no row, if
  there is one. Its lookup is where the loop raises.
\<close>

fun first_missing :: "entity \<Rightarrow> tables \<Rightarrow> int list \<Rightarrow> int option" where
  "first_missing E t [] = None"
| "first_missing E t (i # is) =
     (case query_first_id E t i of
        None \<Rightarrow> Some i
      | Some j \<Rightarrow> first_missing E t is)"

text \<open>
  The last loops of a create endpoint: each id is looked up again, its association row
  inserted, and the insert committed on its own. The lookup cannot miss after the first
  loop; were it to, reading \<^verbatim>\<open>.id\<close> of \<^verbatim>\<open>None\<close> would raise.
\<close>

fun link_each ::
  "entity \<Rightarrow> assoc \<Rightarrow> (int \<Rightarrow> int \<times> int) \<Rightarrow> int list \<Rightarrow> session \<Rightarrow> exn option \<times> session" where
  "link_each E tbl mk [] s = (None, s)"
| "link_each E tbl mk (i # is) s =
     (case query_first_id E (working s) i of
        None \<Rightarrow> (Some (AttributeError ''NoneType object has no attribute id''), s)
      | Some j \<Rightarrow>
          (case execute_insert tbl (mk j) s of
             Inl e \<Rightarrow> (Some e, s)
           | Inr s' \<Rightarrow> link_each E tbl mk is (commit s')))"

definition add_Book :: "Book \<Rightarrow> session \<Rightarrow> session" where
  "add_Book b s = s\<lparr>working := (working s)\<lparr>tables.book := tables.book (working s) @ [b]\<rparr>\<rparr>"

text \<open>
  The first \<^verbatim>\<open>database.commit()\<close> of \<^verbatim>\<open>create_book\<close> flushes the INSERT of the new Book
  row; when the flush raises, nothing is committed.
\<close>

definition create_book :: "BookCreate \<Rightarrow> session \<Rightarrow> (exn + book_response) \<times> session" where
  "create_book book_data s =
     (case first_missing AuthorE (working s) (authors book_data) of
        Some i \<Rightarrow> (Inl (missing AuthorE i), s)
      | None \<Rightarrow>
     (case first_missing LibraryE (working s) (BookCreate.library book_data) of
        Some i \<Rightarrow> (Inl (missing LibraryE i), s)
      | None \<Rightarrow>
     (let db_book = \<lparr>Book.id = next_id (ids BookE (working s)),
                     title = BookCreate.title book_data,
                     pages = BookCreate.pages book_data,
                     stock = BookCreate.stock book_data,
                     price = BookCreate.price book_data,
                     release = BookCreate.release book_data,
                     time = BookCreate.time book_data\<rparr>
      in case flush_Book db_book of
           Some e \<Rightarrow> (Inl e, s)
         | None \<Rightarrow>
     (let s1 = commit (add_Book db_book s)
      in case link_each AuthorE Books_1 (\<lambda>a. (a, Book.id db_book)) (authors book_data) s1 of
           (Some e, s2) \<Rightarrow> (Inl e, s2)
         | (None, s2) \<Rightarrow>
      (case link_each LibraryE Books (\<lambda>l. (Book.id db_book, l))
              (BookCreate.library book_data) s2 of
           (Some e, s3) \<Rightarrow> (Inl e, s3)
         | (None, s3) \<Rightarrow>
             (Inr \<lparr>book = db_book,
                   author_ids = linked Books_1 snd fst (Book.id db_book) (working s3),
                   library_ids = linked Books fst snd (Book.id db_book) (working s3)\<rparr>,
              s3))))))"

subsection \<open>Bulk create\<close>

record bulk_response =
  created_count :: nat
  created_ids :: "int list"
  message :: string

text \<open>
  The loop of a bulk endpoint. \<open>add_flush item s\<close> is the body of the \<^verbatim>\<open>try\<close>: it
  builds the row, adds it and flushes, and answers the new id or the text of the
  exception.
\<close>

fun bulk_loop ::
  "('i \<Rightarrow> session \<Rightarrow> (string + int) \<times> session) \<Rightarrow> nat \<Rightarrow> 'i list \<Rightarrow> session
   \<Rightarrow> int list \<Rightarrow> (nat \<times> string) list \<Rightarrow> session \<times> int list \<times> (nat \<times> string) list" where
  "bulk_loop add_flush idx [] s created_items errors = (s, created_items, errors)"
| "bulk_loop add_flush idx (item_data # items) s created_items errors =
     (case add_flush item_data s of
        (Inr i, s') \<Rightarrow> bulk_loop add_flush (Suc idx) items s' (created_items @ [i]) errors
      | (Inl e, s') \<Rightarrow> bulk_loop add_flush (Suc idx) items s' created_items (errors @ [(idx, e)]))"

definition bulk_create ::
  "('i \<Rightarrow> session \<Rightarrow> (string + int) \<times> session) \<Rightarrow> entity \<Rightarrow> 'i list \<Rightarrow> session
   \<Rightarrow> (exn + bulk_response) \<times> session" where
  "bulk_create add_flush E items s =
     (case bulk_loop add_flush 0 items s [] [] of
        (s', created_items, errors) \<Rightarrow>
          if errors \<noteq> [] then
            (Inl (HTTPException 400 (BulkErrors ''Bulk creation failed'' errors)), rollback s')
          else
            (Inr \<lparr>created_count = length created_items,
                  created_ids = created_items,
                  message = ''Successfully created '' @ str (int (length created_items))
                              @ '' '' @ entity_name E @ '' entities''\<rparr>,
             commit s'))"

text \<open>
  A flush sends the INSERT of the pending row to the store inside the open transaction.
  Whether the store takes a row is not decided by the program: \<open>flush_error\<close> gives the
  text of the exception for a row the store refuses, and \<open>None\<close> for a row it takes. A
  failed flush rolls the transaction back and leaves the session refusing every later
  flush with a \<^verbatim>\<open>PendingRollbackError\<close>, until \<^verbatim>\<open>rollback\<close> is called.
\<close>

definition pending_rollback :: string where
  "pending_rollback = ''PendingRollbackError''"

definition flush_failed :: "session \<Rightarrow> session" where
  "flush_failed s = s\<lparr>working := committed s, deactive := True\<rparr>"

definition add_flush_Book ::
  "(Book \<Rightarrow> string option) \<Rightarrow> BookCreate \<Rightarrow> session \<Rightarrow> (string + int) \<times> session" where
  "add_flush_Book flush_error item_data s =
     (let db_book = \<lparr>Book.id = next_id (ids BookE (working s)),
                     title = BookCreate.title item_data,
                     pages = BookCreate.pages item_data,
                     stock = BookCreate.stock item_data,
                     price = BookCreate.price item_data,
                     release = BookCreate.release item_data,
                     time = BookCreate.time item_data\<rparr>
      in if deactive s then (Inl pending_rollback, s)
         else case flush_error db_book of
                Some e \<Rightarrow> (Inl e, flush_failed s)
              | None \<Rightarrow> (Inr (Book.id db_book), add_Book db_book s))"

definition bulk_create_book ::
  "(Book \<Rightarrow> string option) \<Rightarrow> BookCreate list \<Rightarrow> session \<Rightarrow> (exn + bulk_response) \<times> session" where
  "bulk_create_book flush_error items s = bulk_create (add_flush_Book flush_error) BookE items s"

text \<open>
  The body of a request to the bulk endpoint is a list of \<^verbatim>\<open>BookCreate\<close>: the framework
  validates every item before the endpoint is called, and answers with the errors of the
  items that fail, each under its index in the list, without calling the endpoint.
\<close>

fun body_errors :: "nat \<Rightarrow> BookCreate list \<Rightarrow> (nat \<times> exn) list" where
  "body_errors idx [] = []"
| "body_errors idx (b # bs) =
     (case BookCreate_validate b of
        Inl e \<Rightarrow> (idx, e) # body_errors (Suc idx) bs
      | Inr v \<Rightarrow> body_errors (Suc idx) bs)"

definition post_book_bulk ::
  "(Book \<Rightarrow> string option) \<Rightarrow> BookCreate list \<Rightarrow> tables \<Rightarrow> (exn + bulk_response) \<times> tables" where
  "post_book_bulk flush_error body db =
     (if body_errors 0 body \<noteq> [] then (Inl (RequestValidationError (body_errors 0 body)), db)
      else get_db (bulk_create_book flush_error body) db)"

subsection \<open>Update and delete\<close>


text \<open>
  \<^verbatim>\<open>database.delete(obj)\<close> followed by a flush. \<^verbatim>\<open>sql_alchemy.py\<close> declares
  \<^verbatim>\<open>Book.authors\<close> and \<^verbatim>\<open>Author.books\<close> over the secondary table \<^verbatim>\<open>books_1\<close>, and
  \<^verbatim>\<open>Book.library\<close> and \<^verbatim>\<open>Library.books\<close> over the secondary table \<^verbatim>\<open>books\<close>. When a
  mapped object is deleted, the unit of work of the ORM loads each relationship of the
  object that has a secondary table (the related rows that exist, joined through the
  secondary table) and deletes the secondary row of the object with each of them, then
  deletes the row of the object.
\<close>

fun session_delete :: "entity \<Rightarrow> int \<Rightarrow> session \<Rightarrow> session" where
  "session_delete BookE i s =
     s\<lparr>working := (working s)
        \<lparr>tables.book := filter (\<lambda>b. Book.id b \<noteq> i) (tables.book (working s)),
         books_1 := filter (\<lambda>r. \<not> (snd r = i \<and> fst r \<in> set (ids AuthorE (working s))))
                      (books_1 (working s)),
         tables.books := filter (\<lambda>r. \<not> (fst r = i \<and> snd r \<in> set (ids LibraryE (working s))))
                      (tables.books (working s))\<rparr>\<rparr>"
| "session_delete AuthorE i s =
     s\<lparr>working := (working s)
        \<lparr>tables.author := filter (\<lambda>a. Author.id a \<noteq> i) (tables.author (working s)),
         books_1 := filter (\<lambda>r. \<not> (fst r = i \<and> snd r \<in> set (ids BookE (working s))))
                      (books_1 (working s))\<rparr>\<rparr>"
| "session_delete LibraryE i s =
     s\<lparr>working := (working s)
        \<lparr>tables.library := filter (\<lambda>l. Library.id l \<noteq> i) (tables.library (working s)),
         tables.books := filter (\<lambda>r. \<not> (snd r = i \<and> fst r \<in> set (ids BookE (working s))))
                      (tables.books (working s))\<rparr>\<rparr>"

definition delete_book :: "int \<Rightarrow> session \<Rightarrow> (exn + Book) \<times> session" where
  "delete_book book_id s =
     (case find (\<lambda>b. Book.id b = book_id) (tables.book (working s)) of
        None \<Rightarrow> (Inl (HTTPException 404 (Text ''Book not found'')), s)
      | Some db_book \<Rightarrow> (Inr db_book, commit (session_delete BookE (Book.id db_book) s)))"

subsection \<open>Single links\<close>

text \<open>
  The four endpoints that add one link have one body: both rows are looked up, an
  existing pair is refused, and the insert is committed. \<open>r\<close> is the row of the pair.
\<close>

definition add_link ::
  "entity \<Rightarrow> entity \<Rightarrow> assoc \<Rightarrow> int \<times> int \<Rightarrow> string \<Rightarrow> int \<Rightarrow> int \<Rightarrow> session
   \<Rightarrow> (exn + string) \<times> session" where
  "add_link Owner Other tbl r added owner_id other_id s =
     (case query_first_id Owner (working s) owner_id of
        None \<Rightarrow> (Inl (HTTPException 404 (Text (entity_name Owner @ '' not found''))), s)
      | Some i \<Rightarrow>
     (case query_first_id Other (working s) other_id of
        None \<Rightarrow> (Inl (HTTPException 404 (Text (entity_name Other @ '' not found''))), s)
      | Some j \<Rightarrow>
     (if r \<in> set (rows tbl (working s))
      then (Inl (HTTPException 400 (Text ''Relationship already exists'')), s)
      else case execute_insert tbl r s of
             Inl e \<Rightarrow> (Inl e, s)
           | Inr s' \<Rightarrow> (Inr added, commit s'))))"

definition add_authors_to_book :: "int \<Rightarrow> int \<Rightarrow> session \<Rightarrow> (exn + string) \<times> session" where
  "add_authors_to_book book_id author_id =
     add_link BookE AuthorE Books_1 (author_id, book_id)
       ''Author added to authors successfully'' book_id author_id"

definition add_library_to_book :: "int \<Rightarrow> int \<Rightarrow> session \<Rightarrow> (exn + string) \<times> session" where
  "add_library_to_book book_id library_id =
     add_link BookE LibraryE Books (book_id, library_id)
       ''Library added to library successfully'' book_id library_id"

definition add_books_to_author :: "int \<Rightarrow> int \<Rightarrow> session \<Rightarrow> (exn + string) \<times> session" where
  "add_books_to_author author_id book_id =
     add_link AuthorE BookE Books_1 (author_id, book_id)
       ''Book added to books successfully'' author_id book_id"

definition add_books_to_library :: "int \<Rightarrow> int \<Rightarrow> session \<Rightarrow> (exn + string) \<times> session" where
  "add_books_to_library library_id book_id =
     add_link LibraryE BookE Books (book_id, library_id)
       ''Book added to books successfully'' library_id book_id"

subsection \<open>The decrease\_stock method\<close>

record method_response =
  m_book_id :: int
  m_method :: string
  m_status :: string
  m_result :: "string option"
  m_output :: "string option"

text \<open>
  The body of the method, between \<^verbatim>\<open>try\<close> and \<^verbatim>\<open>except\<close>. \<open>qty\<close> is
  \<^verbatim>\<open>params.get('qty')\<close>: \<open>None\<close> when the key is absent, and comparing \<open>None\<close> with 0
  raises a \<^verbatim>\<open>TypeError\<close> (its message, and that of the \<^verbatim>\<open>AttributeError\<close> below, are
  written without the quotation marks Python puts around the names).
\<close>

definition decrease_stock :: "Book \<Rightarrow> int option \<Rightarrow> exn + Book" where
  "decrease_stock book_object qty =
     (case qty of
        None \<Rightarrow> Inl (TypeError ''<= not supported between instances of NoneType and int'')
      | Some q \<Rightarrow>
          if q \<le> 0 then Inl (ValueError ''Quantity must be a positive integer'')
          else if q > Book.stock book_object then
            Inl (ValueError (''Cannot decrease stock by '' @ str q @ ''. Only ''
                   @ str (Book.stock book_object) @ '' items available.''))
          else Inr (book_object\<lparr>Book.stock := Book.stock book_object - q\<rparr>))"

text \<open>\<^verbatim>\<open>str(e)\<close> of the exceptions the body of the method raises.\<close>

definition str_exn :: "exn \<Rightarrow> string" where
  "str_exn e = (case e of ValueError m \<Rightarrow> m | TypeError m \<Rightarrow> m | AttributeError m \<Rightarrow> m | _ \<Rightarrow> [])"

text \<open>
  The endpoint: \<open>params\<close> is the embedded body, \<open>None\<close> when the request has none (then
  \<^verbatim>\<open>params.get\<close> raises outside the \<^verbatim>\<open>try\<close>). Whatever the body of the method raises is
  caught and raised again as an \<^verbatim>\<open>HTTPException\<close> with status 500.
\<close>

definition execute_book_decrease_stock ::
  "int \<Rightarrow> (string \<rightharpoonup> int) option \<Rightarrow> session \<Rightarrow> (exn + method_response) \<times> session" where
  "execute_book_decrease_stock book_id params s =
     (case find (\<lambda>b. Book.id b = book_id) (tables.book (working s)) of
        None \<Rightarrow> (Inl (HTTPException 404 (Text ''Book not found'')), s)
      | Some book_object \<Rightarrow>
     (case params of
        None \<Rightarrow> (Inl (AttributeError ''NoneType object has no attribute get''), s)
      | Some d \<Rightarrow>
     (case decrease_stock book_object (d ''qty'') of
        Inl e \<Rightarrow>
          (Inl (HTTPException 500 (Text (''Method execution failed: '' @ str_exn e))), s)
      | Inr b' \<Rightarrow>
          (Inr \<lparr>m_book_id = book_id, m_method = ''decrease_stock'',
                m_status = ''executed'', m_result = None, m_output = None\<rparr>,
           commit (s\<lparr>working := (working s)\<lparr>tables.book :=
              map (\<lambda>b. if Book.id b = Book.id b' then b' else b)
                (tables.book (working s))\<rparr>\<rparr>)))))"

section \<open>Author endpoints\<close>

record author_response =
  author :: Author
  book_ids :: "int list"

definition add_Author :: "Author \<Rightarrow> session \<Rightarrow> session" where
  "add_Author a s =
     s\<lparr>working := (working s)\<lparr>tables.author := tables.author (working s) @ [a]\<rparr>\<rparr>"

definition create_author :: "AuthorCreate \<Rightarrow> session \<Rightarrow> (exn + author_response) \<times> session" where
  "create_author author_data s =
     (if AuthorCreate.books author_data = [] \<or> length (AuthorCreate.books author_data) < 1
      then (Inl (HTTPException 400 (Text ''At least 1 Book(s) required'')), s)
      else
     (case first_missing BookE (working s) (AuthorCreate.books author_data) of
        Some i \<Rightarrow> (Inl (missing BookE i), s)
      | None \<Rightarrow>
     (let db_author = \<lparr>Author.id = next_id (ids AuthorE (working s)),
                       name = AuthorCreate.name author_data\<rparr>;
          s1 = commit (add_Author db_author s)
      in case link_each BookE Books_1 (\<lambda>b. (Author.id db_author, b))
                (AuthorCreate.books author_data) s1 of
           (Some e, s2) \<Rightarrow> (Inl e, s2)
         | (None, s2) \<Rightarrow>
             (Inr \<lparr>author = db_author,
                   book_ids = linked Books_1 fst snd (Author.id db_author) (working s2)\<rparr>,
              s2))))"

definition add_flush_Author ::
  "(Author \<Rightarrow> string option) \<Rightarrow> AuthorCreate \<Rightarrow> session \<Rightarrow> (string + int) \<times> session" where
  "add_flush_Author flush_error item_data s =
     (let db_author = \<lparr>Author.id = next_id (ids AuthorE (working s)),
                       name = AuthorCreate.name item_data\<rparr>
      in if deactive s then (Inl pending_rollback, s)
         else case flush_error db_author of
                Some e \<Rightarrow> (Inl e, flush_failed s)
              | None \<Rightarrow> (Inr (Author.id db_author), add_Author db_author s))"

definition bulk_create_author ::
  "(Author \<Rightarrow> string option) \<Rightarrow> AuthorCreate list \<Rightarrow> session
   \<Rightarrow> (exn + bulk_response) \<times> session" where
  "bulk_create_author flush_error items s =
     bulk_create (add_flush_Author flush_error) AuthorE items s"


definition delete_author :: "int \<Rightarrow> session \<Rightarrow> (exn + Author) \<times> session" where
  "delete_author author_id s =
     (case find (\<lambda>a. Author.id a = author_id) (tables.author (working s)) of
        None \<Rightarrow> (Inl (HTTPException 404 (Text ''Author not found'')), s)
      | Some db_author \<Rightarrow>
          (Inr db_author, commit (session_delete AuthorE (Author.id db_author) s)))"

section \<open>Library endpoints\<close>

record library_response =
  library :: Library
  book_ids :: "int list"

definition add_Library :: "Library \<Rightarrow> session \<Rightarrow> session" where
  "add_Library l s =
     s\<lparr>working := (working s)\<lparr>tables.library := tables.library (working s) @ [l]\<rparr>\<rparr>"

definition add_flush_Library ::
  "(Library \<Rightarrow> string option) \<Rightarrow> LibraryCreate \<Rightarrow> session \<Rightarrow> (string + int) \<times> session" where
  "add_flush_Library flush_error item_data s =
     (let db_library = \<lparr>Library.id = next_id (ids LibraryE (working s)),
                        name = LibraryCreate.name item_data\<rparr>
      in if deactive s then (Inl pending_rollback, s)
         else case flush_error db_library of
                Some e \<Rightarrow> (Inl e, flush_failed s)
              | None \<Rightarrow> (Inr (Library.id db_library), add_Library db_library s))"

definition bulk_create_library ::
  "(Library \<Rightarrow> string option) \<Rightarrow> LibraryCreate list \<Rightarrow> session
   \<Rightarrow> (exn + bulk_response) \<times> session" where
  "bulk_create_library flush_error items s =
     bulk_create (add_flush_Library flush_error) LibraryE items s"


definition delete_library :: "int \<Rightarrow> session \<Rightarrow> (exn + Library) \<times> session" where
  "delete_library library_id s =
     (case find (\<lambda>l. Library.id l = library_id) (tables.library (working s)) of
        None \<Rightarrow> (Inl (HTTPException 404 (Text ''Library not found'')), s)
      | Some db_library \<Rightarrow>
          (Inr db_library, commit (session_delete LibraryE (Library.id db_library) s)))"

section \<open>The reconcile operation as the specification words it\<close>

text \<open>
  An association table is seen from one of its two sides: \<open>owner\<close> and \<open>other\<close> are the two
  columns, and \<open>mk w x\<close> is the row that links the owner \<open>w\<close> to \<open>x\<close>.
\<close>

definition view ::
  "(int \<times> int \<Rightarrow> int) \<Rightarrow> (int \<times> int \<Rightarrow> int) \<Rightarrow> (int \<Rightarrow> int \<Rightarrow> int \<times> int) \<Rightarrow> bool" where
  "view owner other mk =
     ((owner = snd \<and> other = fst \<and> mk = (\<lambda>w x. (x, w))) \<or>
      (owner = fst \<and> other = snd \<and> mk = (\<lambda>w x. (w, x))))"

text \<open>
  The rows of an association table after \<^verbatim>\<open>reconcile(owner, target)\<close>, written from the
  specification: `to_remove = existing - target`, `to_add = target - existing`; the rows
  of the owner with an id to remove are deleted, a row is appended for each id to add,
  and every other row stays where it is. The specification leaves open in which order
  the rows of the ids to add are appended: it is the order \<open>slot\<close> in which the set
  \<open>to_add\<close> is iterated.
\<close>

definition spec_reconcile ::
  "hash_order \<Rightarrow> (int \<times> int \<Rightarrow> int) \<Rightarrow> (int \<times> int \<Rightarrow> int) \<Rightarrow> (int \<Rightarrow> int \<Rightarrow> int \<times> int) \<Rightarrow> int
   \<Rightarrow> int list \<Rightarrow> (int \<times> int) list \<Rightarrow> (int \<times> int) list" where
  "spec_reconcile slot owner other mk w target rs =
     (let existing = sort (map other (filter (\<lambda>r. owner r = w) rs));
          to_remove = set_minus slot existing target;
          to_add = set_minus slot target existing
      in filter (\<lambda>r. \<not> (owner r = w \<and> other r \<in> set to_remove)) rs @ map (mk w) to_add)"

section \<open>Foreign keys\<close>

text \<open>
  \<^verbatim>\<open>sql_alchemy.py\<close> declares each column of the association tables a foreign key of an
  entity table: \<^verbatim>\<open>books_1.authors\<close> of \<^verbatim>\<open>author.id\<close>, \<^verbatim>\<open>books_1.books\<close> and
  \<^verbatim>\<open>books.books\<close> of \<^verbatim>\<open>book.id\<close>, \<^verbatim>\<open>books.library\<close> of \<^verbatim>\<open>library.id\<close>. The tables
  satisfy the declaration when every association row names two rows that exist.
\<close>

definition foreign_keys_valid :: "tables \<Rightarrow> bool" where
  "foreign_keys_valid db =
     (list_all (\<lambda>r. fst r \<in> set (ids AuthorE db) \<and> snd r \<in> set (ids BookE db)) (books_1 db)
      \<and> list_all (\<lambda>r. fst r \<in> set (ids BookE db) \<and> snd r \<in> set (ids LibraryE db))
            (tables.books db))"

section \<open>Example data\<close>

text \<open>
  One Book (id 7) written by the Authors 1 and 2, held by the Library 5; Author 3 exists
  and is linked to nothing.
\<close>

definition db0 :: tables where
  "db0 = \<lparr>tables.book = [\<lparr>Book.id = 7, title = ''T'', pages = 11, stock = 3, price = 1,
                           release = (2020, 1, 1), time = (9, 0, 0)\<rparr>],
          tables.author = [\<lparr>Author.id = 1, name = ''A''\<rparr>, \<lparr>Author.id = 2, name = ''B''\<rparr>,
                           \<lparr>Author.id = 3, name = ''C''\<rparr>],
          tables.library = [\<lparr>Library.id = 5, name = ''L''\<rparr>],
          books_1 = [(1, 7), (2, 7)],
          tables.books = [(7, 5)]\<rparr>"

text \<open>An update of Book 7 that replaces the authors {1, 2} by {2, 3}.\<close>

definition data0 :: BookCreate where
  "data0 = \<lparr>BookCreate.pages = 12, time = (9, 0, 0), stock = 3, price = 1,
            release = (2020, 1, 1), title = ''T'', authors = [2, 3], library = [5]\<rparr>"


text \<open>A new Author whose one book id is 2^63: the store holds no such id, and cannot.\<close>

definition adata1 :: AuthorCreate where
  "adata1 = \<lparr>AuthorCreate.name = ''N'', books = [2 ^ 63]\<rparr>"




text \<open>A store that refuses the rows of the Books titled \<^verbatim>\<open>bad\<close> and takes every other row.\<close>

definition fe0 :: "Book \<Rightarrow> string option" where
  "fe0 b = (if Book.title b = ''bad'' then Some ''refused'' else None)"

section \<open>Properties of the persistence layer\<close>

lemma rows_set_rows [simp]: "rows tbl (set_rows tbl rs t) = rs"
  by (cases tbl) simp_all

lemma set_rows_set_rows [simp]: "set_rows tbl rs (set_rows tbl rs' t) = set_rows tbl rs t"
  by (cases tbl) simp_all

lemma set_rows_rows [simp]: "set_rows tbl (rows tbl t) t = t"
  by (cases tbl) simp_all

lemma ids_set_rows [simp]: "ids E (set_rows tbl rs t) = ids E t"
  by (cases E; cases tbl) simp_all

lemma query_first_id_set_rows [simp]:
  "query_first_id E (set_rows tbl rs t) i = query_first_id E t i"
  by (simp add: query_first_id_def)

lemma query_first_id_Some: "query_first_id E t i = Some j \<Longrightarrow> j = i \<and> i \<in> set (ids E t)"
  by (auto simp: query_first_id_def find_Some_iff)

lemma query_first_id_None: "(query_first_id E t i = None) = (i \<notin> set (ids E t))"
  by (auto simp: query_first_id_def find_None_iff)

lemma query_first_id_mem: "i \<in> set (ids E t) \<Longrightarrow> query_first_id E t i = Some i"
  using query_first_id_None [of E t i] query_first_id_Some [of E t i] by (cases "query_first_id E t i") auto

lemma set_set_minus [simp]: "set (set_minus slot xs ys) = set xs - set ys"
  by (auto simp: set_minus_def)

lemma distinct_set_minus [simp]: "distinct (set_minus slot xs ys)"
  by (simp add: set_minus_def)

lemma nth_pos: "i \<in> set p \<Longrightarrow> p ! pos p i = i"
  by (induction p) auto

lemma map_pos: "distinct p \<Longrightarrow> map (pos p) p = [0..<length p]"
proof (induction p)
  case Nil
  then show ?case by simp
next
  case (Cons x p)
  have a: "map (pos (x # p)) p = map (Suc \<circ> pos p) p"
    using Cons.prems by (intro map_cong) auto
  have b: "map (Suc \<circ> pos p) p = map Suc (map (pos p) p)" by simp
  have c: "map (pos p) p = [0..<length p]" using Cons by simp
  have "map (pos (x # p)) (x # p) = 0 # map (pos (x # p)) p" by simp
  also have "\<dots> = 0 # map Suc [0..<length p]" unfolding a b c by (rule refl)
  also have "\<dots> = [0..<length (x # p)]"
    by (simp only: map_Suc_upt length_Cons upt_conv_Cons [OF zero_less_Suc])
  finally show ?case .
qed




lemma view_simps:
  assumes "view owner other mk"
  shows "owner (mk w x) = w" "other (mk w x) = x" "mk (owner r) (other r) = r"
  using assms by (auto simp: view_def)


lemma linked_Nil:
  "(linked tbl owner other i t = []) = (\<forall>r\<in>set (rows tbl t). owner r \<noteq> i)"
proof -
  have "(sort xs = []) = (xs = [])" for xs :: "int list"
    by (metis length_sort length_0_conv)
  then show ?thesis by (auto simp: linked_def filter_empty_conv)
qed

lemma spec_reconcile_alt:
  "spec_reconcile slot owner other mk w target rs =
     filter (\<lambda>r. \<not> (owner r = w \<and> other r \<notin> set target)) rs
     @ map (mk w) (set_minus slot target (sort (map other (filter (\<lambda>r. owner r = w) rs))))"
proof -
  have k: "filter (\<lambda>r. \<not> (owner r = w \<and>
            other r \<in> set (set_minus slot (sort (map other (filter (\<lambda>r. owner r = w) rs))) target))) rs
        = filter (\<lambda>r. \<not> (owner r = w \<and> other r \<notin> set target)) rs"
    by (rule filter_cong [OF refl]) auto
  show ?thesis unfolding spec_reconcile_def Let_def k by (rule refl)
qed






section \<open>The update endpoints, as functions of the tables\<close>

lemma find_Book_id: "find (\<lambda>b. Book.id b = i) bs = Some row \<Longrightarrow> Book.id row = i"
  by (auto simp: find_Some_iff)

lemma find_Book_None: "(find (\<lambda>b. Book.id b = i) (tables.book t) = None) = (i \<notin> set (ids BookE t))"
  by (auto simp: find_None_iff)




lemma find_Author_id: "find (\<lambda>a. Author.id a = i) xs = Some row \<Longrightarrow> Author.id row = i"
  by (auto simp: find_Some_iff)

lemma find_Library_id: "find (\<lambda>l. Library.id l = i) xs = Some row \<Longrightarrow> Library.id row = i"
  by (auto simp: find_Some_iff)

lemma find_Author_None:
  "(find (\<lambda>a. Author.id a = i) (tables.author t) = None) = (i \<notin> set (ids AuthorE t))"
  by (auto simp: find_None_iff)

lemma find_Library_None:
  "(find (\<lambda>l. Library.id l = i) (tables.library t) = None) = (i \<notin> set (ids LibraryE t))"
  by (auto simp: find_None_iff)








lemma find_map_Book:
  assumes "Book.id c = i"
  shows "find (\<lambda>b. Book.id b = i) (map (\<lambda>b. if Book.id b = i then c else b) xs)
         = (if i \<in> Book.id ` set xs then Some c else None)"
  using assms by (induction xs) auto



lemma find_Some_mem: "find P xs = Some x \<Longrightarrow> x \<in> set xs"
  by (auto simp: find_Some_iff)










section \<open>The pages validator\<close>

text \<open>
  C8. The bound of the pages validator is exclusive: 10 is rejected with the message
  \<^verbatim>\<open>pages must be > 10\<close>, 11 is accepted, and a body is rejected exactly when its pages
  are at most 10, whatever its other fields.
\<close>

theorem C8_pages_boundary_exclusive:
  "validate_pages_1 10 = Inl (ValueError ''pages must be > 10'')
   \<and> validate_pages_1 11 = Inr 11
   \<and> BookCreate_validate (body\<lparr>BookCreate.pages := 10\<rparr>)
       = Inl (ValueError ''pages must be > 10'')
   \<and> BookCreate_validate (body\<lparr>BookCreate.pages := 11\<rparr>)
       = Inr (body\<lparr>BookCreate.pages := 11\<rparr>)
   \<and> (BookCreate_validate body = Inl (ValueError ''pages must be > 10'')
        \<or> BookCreate_validate body = Inr body)
   \<and> (BookCreate_validate body = Inr body) = (10 < BookCreate.pages body)"
  by (simp add: validate_pages_1_def BookCreate_validate_def)

section \<open>Updates apply the minimal delta\<close>

text \<open>
  What the table of the specification holds, whatever the order in which the set of ids
  to add is iterated: the rows of the table without the rows of the owner whose id is not
  in the target, and one row for each id of the target that the owner was not linked to.
  The rows that are kept are in the order in which the table had them.
\<close>

lemma spec_reconcile_set:
  assumes v: "view owner other mk"
  shows "set (spec_reconcile slot owner other mk w target rs)
         = {r \<in> set rs. \<not> (owner r = w \<and> other r \<notin> set target)}
           \<union> mk w ` (set target - other ` {r \<in> set rs. owner r = w})"
  by (auto simp: spec_reconcile_alt)

lemma spec_reconcile_kept:
  assumes v: "view owner other mk"
  shows "filter (\<lambda>r. r \<in> set rs) (spec_reconcile slot owner other mk w target rs)
         = filter (\<lambda>r. \<not> (owner r = w \<and> other r \<notin> set target)) rs"
proof -
  have a: "filter (\<lambda>r. r \<in> set rs) (filter (\<lambda>r. \<not> (owner r = w \<and> other r \<notin> set target)) rs)
           = filter (\<lambda>r. \<not> (owner r = w \<and> other r \<notin> set target)) rs"
    by (induction rs) auto
  have "mk w x \<notin> set rs"
    if "x \<in> set target" "x \<notin> other ` {r \<in> set rs. owner r = w}" for x
    using that view_simps(1,2) [OF v] by (metis (mono_tags, lifting) imageI mem_Collect_eq)
  then have b: "filter (\<lambda>r. r \<in> set rs)
      (map (mk w) (set_minus slot target (sort (map other (filter (\<lambda>r. owner r = w) rs))))) = []"
    by (auto simp: filter_empty_conv)
  show ?thesis unfolding spec_reconcile_alt by (simp only: filter_append a b append_Nil2)
qed

text \<open>
  Every order of the difference is the iteration under some \<open>slot\<close>: the model leaves out no
  order in which the program could meet the ids.
\<close>

lemma sort_key_pos:
  assumes "distinct p" "distinct xs" "set xs = set p"
  shows "sort_key (pos p) xs = p"
proof -
  have inj: "inj_on (pos p) (set p)"
    by (rule inj_onI) (metis nth_pos)
  have mp: "map (pos p) p = [0..<length p]"
    using assms(1) by (simp add: map_pos)
  have s1: "sorted (map (pos p) (sort_key (pos p) xs))" by simp
  have d1: "distinct (map (pos p) (sort_key (pos p) xs))"
    using assms(2,3) inj by (simp add: distinct_map)
  have e1: "set (map (pos p) (sort_key (pos p) xs)) = set (map (pos p) p)"
    using assms(3) by simp
  have "map (pos p) (sort_key (pos p) xs) = map (pos p) p"
    using s1 d1 e1 mp by (metis distinct_upt sorted_distinct_set_unique sorted_upt)
  moreover have "inj_on (pos p) (set (sort_key (pos p) xs) \<union> set p)"
    using inj assms(3) by simp
  ultimately show ?thesis by (rule map_inj_on)
qed

lemma set_minus_any_order:
  assumes "distinct p" "set p = set xs - set ys"
  shows "set_minus (\<lambda>xs ys. pos p) xs ys = p"
  unfolding set_minus_def
  by (rule sort_key_pos) (use assms in auto)




section \<open>Updates are idempotent\<close>



section \<open>Adding a link that exists\<close>

lemma add_link_existing:
  assumes "owner_id \<in> set (ids Owner db)" "other_id \<in> set (ids Other db)"
    "r \<in> set (rows tbl db)"
  shows "get_db (add_link Owner Other tbl r added owner_id other_id) db
         = (Inl (HTTPException 400 (Text ''Relationship already exists'')), db)"
  using assms
  by (simp add: get_db_def add_link_def SessionLocal_def query_first_id_mem)

lemma add_link_Inr:
  assumes "get_db (add_link Owner Other tbl r added owner_id other_id) db = (Inr m, db1)"
  shows "owner_id \<in> set (ids Owner db) \<and> other_id \<in> set (ids Other db)
         \<and> r \<notin> set (rows tbl db) \<and> db1 = set_rows tbl (rows tbl db @ [r]) db"
  using assms
  by (auto simp: get_db_def add_link_def SessionLocal_def commit_def execute_insert_def
      query_first_id_None
      split: option.splits if_splits dest: query_first_id_Some)

lemma add_link_twice:
  assumes "get_db (add_link Owner Other tbl r added owner_id other_id) db = (Inr m, db1)"
  shows "get_db (add_link Owner Other tbl r added owner_id other_id) db1
         = (Inl (HTTPException 400 (Text ''Relationship already exists'')), db1)"
proof -
  from add_link_Inr [OF assms]
  have "owner_id \<in> set (ids Owner db1)" "other_id \<in> set (ids Other db1)" "r \<in> set (rows tbl db1)"
    by simp_all
  then show ?thesis by (rule add_link_existing)
qed

text \<open>
  The pair (Author 1, Book 7) is a row of the example tables. Adding it again is refused
  by the check of the endpoint with status 400: the request does not reach the store,
  and the answer is not the 409 of an integrity error.
\<close>

theorem C3_add_existing_link_counterexample:
  "(1, 7) \<in> set (books_1 db0)
   \<and> get_db (add_authors_to_book 7 1) db0
       = (Inl (HTTPException 400 (Text ''Relationship already exists'')), db0)
   \<and> status_code (HTTPException 400 (Text ''Relationship already exists'')) \<noteq> 409"
  by (simp add: add_authors_to_book_def add_link_existing db0_def)

text \<open>
  C3, as the code has it. When the join row of a pair exists and both entities exist,
  each of the four endpoints that add a single link answers 400 with the detail
  \<^verbatim>\<open>Relationship already exists\<close> and leaves the tables as they were. In
  particular, after a successful add of a pair, which appends its row, the same add
  answers 400.
\<close>

theorem C3_add_existing_link_rejected:
  "(book_id \<in> set (ids BookE db) \<and> author_id \<in> set (ids AuthorE db)
      \<and> (author_id, book_id) \<in> set (books_1 db) \<longrightarrow>
      get_db (add_authors_to_book book_id author_id) db
        = (Inl (HTTPException 400 (Text ''Relationship already exists'')), db)
      \<and> get_db (add_books_to_author author_id book_id) db
        = (Inl (HTTPException 400 (Text ''Relationship already exists'')), db))
   \<and> (book_id \<in> set (ids BookE db) \<and> library_id \<in> set (ids LibraryE db)
      \<and> (book_id, library_id) \<in> set (tables.books db) \<longrightarrow>
      get_db (add_library_to_book book_id library_id) db
        = (Inl (HTTPException 400 (Text ''Relationship already exists'')), db)
      \<and> get_db (add_books_to_library library_id book_id) db
        = (Inl (HTTPException 400 (Text ''Relationship already exists'')), db))
   \<and> (get_db (add_authors_to_book book_id author_id) db = (Inr m, db1) \<longrightarrow>
      books_1 db1 = books_1 db @ [(author_id, book_id)]
      \<and> get_db (add_authors_to_book book_id author_id) db1
        = (Inl (HTTPException 400 (Text ''Relationship already exists'')), db1))"
proof (intro conjI impI)
  assume a: "get_db (add_authors_to_book book_id author_id) db = (Inr m, db1)"
  show "books_1 db1 = books_1 db @ [(author_id, book_id)]"
    using add_link_Inr [OF a [unfolded add_authors_to_book_def]] by simp
  show "get_db (add_authors_to_book book_id author_id) db1
        = (Inl (HTTPException 400 (Text ''Relationship already exists'')), db1)"
    using add_link_twice [OF a [unfolded add_authors_to_book_def]]
    by (simp add: add_authors_to_book_def)
qed (simp_all add: add_authors_to_book_def add_books_to_author_def add_library_to_book_def
       add_books_to_library_def add_link_existing)

theorem C3_add_existing_link_rejected_witness:
  "7 \<in> set (ids BookE db0) \<and> 1 \<in> set (ids AuthorE db0) \<and> (1, 7) \<in> set (books_1 db0)
   \<and> 5 \<in> set (ids LibraryE db0) \<and> (7, 5) \<in> set (tables.books db0)
   \<and> get_db (add_authors_to_book 7 1) db0
        = (Inl (HTTPException 400 (Text ''Relationship already exists'')), db0)
   \<and> get_db (add_library_to_book 7 5) db0
        = (Inl (HTTPException 400 (Text ''Relationship already exists'')), db0)
   \<and> get_db (add_authors_to_book 7 3) db0
        = (Inr ''Author added to authors successfully'', db0\<lparr>books_1 := [(1, 7), (2, 7), (3, 7)]\<rparr>)
   \<and> get_db (add_authors_to_book 7 3) (db0\<lparr>books_1 := [(1, 7), (2, 7), (3, 7)]\<rparr>)
        = (Inl (HTTPException 400 (Text ''Relationship already exists'')),
           db0\<lparr>books_1 := [(1, 7), (2, 7), (3, 7)]\<rparr>)"
proof -
  have e: "get_db (add_authors_to_book 7 3) db0
        = (Inr ''Author added to authors successfully'', db0\<lparr>books_1 := [(1, 7), (2, 7), (3, 7)]\<rparr>)"
    by code_simp
  have m: "7 \<in> set (ids BookE db0)" "1 \<in> set (ids AuthorE db0)" "(1, 7) \<in> set (books_1 db0)"
    "5 \<in> set (ids LibraryE db0)" "(7, 5) \<in> set (tables.books db0)"
    by (simp_all add: db0_def)
  show ?thesis
    using C3_add_existing_link_rejected [of 7 db0 1 5 "''Author added to authors successfully''"
        "db0\<lparr>books_1 := [(1, 7), (2, 7), (3, 7)]\<rparr>"]
      C3_add_existing_link_rejected [of 7 db0 3 5 "''Author added to authors successfully''"
        "db0\<lparr>books_1 := [(1, 7), (2, 7), (3, 7)]\<rparr>"] e m
    by simp
qed

section \<open>Decreasing the stock\<close>

lemma find_map_replace_Book:
  assumes "find (\<lambda>b. Book.id b = i) xs = Some row" "Book.id c = i"
  shows "find (\<lambda>b. Book.id b = i) (map (\<lambda>b. if Book.id b = i then c else b) xs) = Some c"
proof -
  have "i \<in> Book.id ` set xs"
    using find_Some_mem [OF assms(1)] find_Book_id [OF assms(1)] by force
  then show ?thesis using assms(2) by (simp add: find_map_Book)
qed

lemma decrease_stock_rejected:
  assumes f: "find (\<lambda>b. Book.id b = book_id) (tables.book db) = Some row"
    and q: "d ''qty'' = Some q" and bad: "q \<le> 0 \<or> Book.stock row < q"
  shows "\<exists>m. decrease_stock row (d ''qty'') = Inl (ValueError m)
           \<and> get_db (execute_book_decrease_stock book_id (Some d)) db
             = (Inl (HTTPException 500 (Text (''Method execution failed: '' @ m))), db)"
  using bad
  by (auto simp: get_db_def execute_book_decrease_stock_def SessionLocal_def f q
      decrease_stock_def str_exn_def)

lemma decrease_stock_accepted:
  assumes f: "find (\<lambda>b. Book.id b = book_id) (tables.book db) = Some row"
    and q: "d ''qty'' = Some q" and ok: "0 < q" "q \<le> Book.stock row"
  shows "get_db (execute_book_decrease_stock book_id (Some d)) db
          = (Inr \<lparr>m_book_id = book_id, m_method = ''decrease_stock'', m_status = ''executed'',
                  m_result = None, m_output = None\<rparr>,
             db\<lparr>tables.book := map (\<lambda>b. if Book.id b = book_id
                                          then row\<lparr>Book.stock := Book.stock row - q\<rparr> else b)
                                  (tables.book db)\<rparr>)"
  using ok find_Book_id [OF f]
  by (simp add: get_db_def execute_book_decrease_stock_def SessionLocal_def f q
      decrease_stock_def commit_def)

text \<open>
  Book 7 has 3 items in stock. Asking for 5 raises the \<^verbatim>\<open>ValueError\<close> of the method,
  which the endpoint catches and raises again as an \<^verbatim>\<open>HTTPException\<close> with status 500:
  a server error, not a client error. And with an empty stock, the quantity 0, equal to
  the stock, is refused by the first check of the method.
\<close>

theorem C5_decrease_stock_counterexample:
  "find (\<lambda>b. Book.id b = 7) (tables.book db0)
     = Some \<lparr>Book.id = 7, title = ''T'', pages = 11, stock = 3, price = 1,
             release = (2020, 1, 1), time = (9, 0, 0)\<rparr>
   \<and> get_db (execute_book_decrease_stock 7 (Some [''qty'' \<mapsto> 5])) db0
     = (Inl (HTTPException 500 (Text
          ''Method execution failed: Cannot decrease stock by 5. Only 3 items available.'')), db0)
   \<and> status_code (HTTPException 500 (Text
          ''Method execution failed: Cannot decrease stock by 5. Only 3 items available.'')) = 500
   \<and> get_db (execute_book_decrease_stock 7 (Some [''qty'' \<mapsto> 0]))
        (db0\<lparr>tables.book := [\<lparr>Book.id = 7, title = ''T'', pages = 11, stock = 0, price = 1,
             release = (2020, 1, 1), time = (9, 0, 0)\<rparr>]\<rparr>)
     = (Inl (HTTPException 500 (Text
          ''Method execution failed: Quantity must be a positive integer'')),
        db0\<lparr>tables.book := [\<lparr>Book.id = 7, title = ''T'', pages = 11, stock = 0, price = 1,
             release = (2020, 1, 1), time = (9, 0, 0)\<rparr>]\<rparr>)"
  by (simp add: get_db_def execute_book_decrease_stock_def SessionLocal_def
      decrease_stock_def str_exn_def db0_def str_def)

text \<open>
  C5, as the code has it. For a Book that exists and a quantity \<open>q\<close>: when \<open>q \<le> 0\<close> or \<open>q\<close>
  exceeds the stock, the method raises a \<^verbatim>\<open>ValueError\<close>, the endpoint answers 500 with
  the detail \<^verbatim>\<open>Method execution failed:\<close> followed by the message of the error, and the
  tables are left as they were; when \<open>0 < q\<close> and \<open>q\<close> is at most the stock, the endpoint
  succeeds and the stock of the Book is decreased by \<open>q\<close>; in particular a positive \<open>q\<close>
  equal to the stock leaves the stock at 0.
\<close>

theorem C5_decrease_stock:
  "find (\<lambda>b. Book.id b = book_id) (tables.book db) = Some row \<and> d ''qty'' = Some q \<longrightarrow>
     (q \<le> 0 \<or> Book.stock row < q \<longrightarrow>
        (\<exists>m. decrease_stock row (Some q) = Inl (ValueError m)
           \<and> fst (get_db (execute_book_decrease_stock book_id (Some d)) db)
               = Inl (HTTPException 500 (Text (''Method execution failed: '' @ m))))
        \<and> snd (get_db (execute_book_decrease_stock book_id (Some d)) db) = db)
   \<and> (0 < q \<and> q \<le> Book.stock row \<longrightarrow>
        (\<exists>r. fst (get_db (execute_book_decrease_stock book_id (Some d)) db) = Inr r)
        \<and> find (\<lambda>b. Book.id b = book_id)
             (tables.book (snd (get_db (execute_book_decrease_stock book_id (Some d)) db)))
            = Some (row\<lparr>Book.stock := Book.stock row - q\<rparr>))
   \<and> (0 < q \<and> q = Book.stock row \<longrightarrow>
        (\<exists>b. find (\<lambda>b. Book.id b = book_id)
             (tables.book (snd (get_db (execute_book_decrease_stock book_id (Some d)) db)))
            = Some b \<and> Book.stock b = 0))"
proof (intro impI conjI; elim conjE)
  assume f: "find (\<lambda>b. Book.id b = book_id) (tables.book db) = Some row"
    and q: "d ''qty'' = Some q"
  {
    assume bad: "q \<le> 0 \<or> Book.stock row < q"
    from decrease_stock_rejected [of book_id db row d q, OF f q bad]
    show "\<exists>m. decrease_stock row (Some q) = Inl (ValueError m)
           \<and> fst (get_db (execute_book_decrease_stock book_id (Some d)) db)
               = Inl (HTTPException 500 (Text (''Method execution failed: '' @ m)))"
      by (auto simp: q)
    from decrease_stock_rejected [of book_id db row d q, OF f q bad]
    show "snd (get_db (execute_book_decrease_stock book_id (Some d)) db) = db"
      by auto
  }
  {
    assume ok: "0 < q" "q \<le> Book.stock row"
    show "\<exists>r. fst (get_db (execute_book_decrease_stock book_id (Some d)) db) = Inr r"
      by (simp add: decrease_stock_accepted [of book_id db row d q, OF f q ok])
    show "find (\<lambda>b. Book.id b = book_id)
             (tables.book (snd (get_db (execute_book_decrease_stock book_id (Some d)) db)))
            = Some (row\<lparr>Book.stock := Book.stock row - q\<rparr>)"
      using find_map_replace_Book [OF f, of "row\<lparr>Book.stock := Book.stock row - q\<rparr>"]
        find_Book_id [OF f]
      by (simp add: decrease_stock_accepted [of book_id db row d q, OF f q ok])
  }
  {
    assume ok: "0 < q" "q = Book.stock row"
    then have ok': "0 < q" "q \<le> Book.stock row" by simp_all
    show "\<exists>b. find (\<lambda>b. Book.id b = book_id)
             (tables.book (snd (get_db (execute_book_decrease_stock book_id (Some d)) db)))
            = Some b \<and> Book.stock b = 0"
      using find_map_replace_Book [OF f, of "row\<lparr>Book.stock := Book.stock row - q\<rparr>"]
        find_Book_id [OF f] ok
      by (simp add: decrease_stock_accepted [of book_id db row d q, OF f q ok'])
  }
qed

theorem C5_decrease_stock_witness:
  "find (\<lambda>b. Book.id b = 7) (tables.book db0)
     = Some \<lparr>Book.id = 7, title = ''T'', pages = 11, stock = 3, price = 1,
             release = (2020, 1, 1), time = (9, 0, 0)\<rparr>
   \<and> fst (get_db (execute_book_decrease_stock 7 (Some [''qty'' \<mapsto> 5])) db0)
       = Inl (HTTPException 500 (Text
          ''Method execution failed: Cannot decrease stock by 5. Only 3 items available.''))
   \<and> snd (get_db (execute_book_decrease_stock 7 (Some [''qty'' \<mapsto> 5])) db0) = db0
   \<and> snd (get_db (execute_book_decrease_stock 7 (Some [''qty'' \<mapsto> - 1])) db0) = db0
   \<and> (\<exists>r. fst (get_db (execute_book_decrease_stock 7 (Some [''qty'' \<mapsto> 3])) db0) = Inr r)
   \<and> (\<exists>b. find (\<lambda>b. Book.id b = 7)
             (tables.book (snd (get_db (execute_book_decrease_stock 7 (Some [''qty'' \<mapsto> 3])) db0)))
            = Some b \<and> Book.stock b = 0)"
proof -
  let ?row = "\<lparr>Book.id = 7, title = ''T'', pages = 11, stock = 3, price = 1,
             release = (2020, 1, 1), time = (9, 0, 0)\<rparr>"
  have f: "find (\<lambda>b. Book.id b = 7) (tables.book db0) = Some ?row"
    by (simp add: db0_def)
  have m: "decrease_stock ?row (Some 5)
           = Inl (ValueError ''Cannot decrease stock by 5. Only 3 items available.'')"
    by (simp add: decrease_stock_def str_def)
  show ?thesis
    using C5_decrease_stock [of 7 db0 ?row "[''qty'' \<mapsto> 5]" 5]
      C5_decrease_stock [of 7 db0 ?row "[''qty'' \<mapsto> - 1]" "- 1"]
      C5_decrease_stock [of 7 db0 ?row "[''qty'' \<mapsto> 3]" 3] f m
    by simp
qed

section \<open>Creating an Author\<close>

lemma first_missing_None: "(first_missing E t is = None) = (set is \<subseteq> set (ids E t))"
  by (induction "is") (auto simp: query_first_id_None split: option.splits dest: query_first_id_Some)

lemma first_missing_Some:
  "first_missing E t is = Some i \<Longrightarrow> i \<in> set is \<and> i \<notin> set (ids E t)"
  by (induction "is") (auto simp: query_first_id_None split: option.splits)

text \<open>
  The one id of the list is 2^63, for which no Book exists. Its lookup cannot bind the id
  to the SELECT: the request is answered 500, not 404. No Author row is persisted.
\<close>

theorem C6_create_author_overflow_counterexample:
  "ids BookE db0 = [7] \<and> AuthorCreate.books adata1 = [2 ^ 63]
   \<and> get_db (create_author adata1) db0 = (Inl overflow, db0)
   \<and> status_code overflow = 500"
  by code_simp

text \<open>
  C6, as the code has it. Creating an Author with an empty list of books answers 400
  with the detail \<^verbatim>\<open>At least 1 Book(s) required\<close>. With a non-empty list in which some id
  names no Book, the request fails at the first such id of the list: with 404 and a
  detail that names the id when the store can hold the id, and with the
  \<^verbatim>\<open>OverflowError\<close> of the driver, answered 500, when it cannot. In every one of these
  cases the tables are left as they were: no Author row is persisted.
\<close>

theorem C6_create_author_checks_books:
  "(AuthorCreate.books d = [] \<longrightarrow>
      get_db (create_author d) db
        = (Inl (HTTPException 400 (Text ''At least 1 Book(s) required'')), db))
   \<and> (AuthorCreate.books d \<noteq> [] \<and> \<not> set (AuthorCreate.books d) \<subseteq> set (ids BookE db) \<longrightarrow>
      (\<exists>i. first_missing BookE db (AuthorCreate.books d) = Some i
         \<and> i \<in> set (AuthorCreate.books d) \<and> i \<notin> set (ids BookE db)
         \<and> get_db (create_author d) db
             = (Inl (if storable i
                     then HTTPException 404 (Text (''Book with ID '' @ str i @ '' not found''))
                     else overflow), db)))"
proof (intro conjI impI)
  assume "AuthorCreate.books d = []"
  then show "get_db (create_author d) db
        = (Inl (HTTPException 400 (Text ''At least 1 Book(s) required'')), db)"
    by (simp add: get_db_def create_author_def SessionLocal_def)
next
  assume a: "AuthorCreate.books d \<noteq> [] \<and> \<not> set (AuthorCreate.books d) \<subseteq> set (ids BookE db)"
  then obtain i where i: "first_missing BookE db (AuthorCreate.books d) = Some i"
    using first_missing_None [of BookE db "AuthorCreate.books d"]
    by (cases "first_missing BookE db (AuthorCreate.books d)") auto
  have "get_db (create_author d) db
             = (Inl (if storable i
                     then HTTPException 404 (Text (''Book with ID '' @ str i @ '' not found''))
                     else overflow), db)"
    using a i by (simp add: get_db_def create_author_def SessionLocal_def missing_def not_found_def)
  then show "\<exists>i. first_missing BookE db (AuthorCreate.books d) = Some i
         \<and> i \<in> set (AuthorCreate.books d) \<and> i \<notin> set (ids BookE db)
         \<and> get_db (create_author d) db
             = (Inl (if storable i
                     then HTTPException 404 (Text (''Book with ID '' @ str i @ '' not found''))
                     else overflow), db)"
    using i first_missing_Some [OF i] by blast
qed

theorem C6_create_author_checks_books_witness:
  "get_db (create_author \<lparr>AuthorCreate.name = ''N'', books = []\<rparr>) db0
     = (Inl (HTTPException 400 (Text ''At least 1 Book(s) required'')), db0)
   \<and> storable 9
   \<and> get_db (create_author \<lparr>AuthorCreate.name = ''N'', books = [7, 9]\<rparr>) db0
     = (Inl (HTTPException 404 (Text ''Book with ID 9 not found'')), db0)
   \<and> status_code (HTTPException 404 (Text ''Book with ID 9 not found'')) = 404"
proof -
  have f: "first_missing BookE db0 [7, 9] = Some 9"
    by (simp add: db0_def query_first_id_def)
  have s: "str 9 = ''9''" by (simp add: str_def)
  have n: "\<not> set [7, 9 :: int] \<subseteq> set (ids BookE db0)" by (simp add: db0_def)
  have st: "storable 9" by (simp add: storable_def)
  show ?thesis
    using C6_create_author_checks_books [of "\<lparr>AuthorCreate.name = ''N'', books = []\<rparr>" db0]
      C6_create_author_checks_books [of "\<lparr>AuthorCreate.name = ''N'', books = [7, 9]\<rparr>" db0]
      f s n st
    by simp
qed

section \<open>Deleting an entity\<close>

lemma delete_book_tables:
  assumes f: "find (\<lambda>b. Book.id b = book_id) (tables.book db) = Some b"
  shows "get_db (delete_book book_id) db =
     (Inr b, db\<lparr>tables.book := filter (\<lambda>b. Book.id b \<noteq> book_id) (tables.book db),
                books_1 := filter (\<lambda>r. \<not> (snd r = book_id \<and> fst r \<in> set (ids AuthorE db))) (books_1 db),
                tables.books := filter (\<lambda>r. \<not> (fst r = book_id \<and> snd r \<in> set (ids LibraryE db)))
                                  (tables.books db)\<rparr>)"
proof -
  have i: "Book.id b = book_id" using f by (rule find_Book_id)
  show ?thesis
    unfolding get_db_def delete_book_def SessionLocal_def
    by (simp add: f i commit_def)
qed

lemma delete_author_tables:
  assumes f: "find (\<lambda>a. Author.id a = author_id) (tables.author db) = Some a"
  shows "get_db (delete_author author_id) db =
     (Inr a, db\<lparr>tables.author := filter (\<lambda>a. Author.id a \<noteq> author_id) (tables.author db),
                books_1 := filter (\<lambda>r. \<not> (fst r = author_id \<and> snd r \<in> set (ids BookE db))) (books_1 db)\<rparr>)"
proof -
  have i: "Author.id a = author_id" using f by (rule find_Author_id)
  show ?thesis
    unfolding get_db_def delete_author_def SessionLocal_def
    by (simp add: f i commit_def)
qed

lemma delete_library_tables:
  assumes f: "find (\<lambda>l. Library.id l = library_id) (tables.library db) = Some l"
  shows "get_db (delete_library library_id) db =
     (Inr l, db\<lparr>tables.library := filter (\<lambda>l. Library.id l \<noteq> library_id) (tables.library db),
                tables.books := filter (\<lambda>r. \<not> (snd r = library_id \<and> fst r \<in> set (ids BookE db)))
                                  (tables.books db)\<rparr>)"
proof -
  have i: "Library.id l = library_id" using f by (rule find_Library_id)
  show ?thesis
    unfolding get_db_def delete_library_def SessionLocal_def
    by (simp add: f i commit_def)
qed

lemma foreign_keys_valid_iff:
  "foreign_keys_valid db =
     ((\<forall>r\<in>set (books_1 db). fst r \<in> set (ids AuthorE db) \<and> snd r \<in> set (ids BookE db))
      \<and> (\<forall>r\<in>set (tables.books db). fst r \<in> set (ids BookE db) \<and> snd r \<in> set (ids LibraryE db)))"
  by (simp add: foreign_keys_valid_def list_all_iff)

text \<open>
  Book 7 is linked to the Authors 1 and 2 and to the Library 5. After the Book is
  deleted, the association rows of the Book are gone with it.
\<close>

theorem C7_delete_counterexample:
  "(1, 7) \<in> set (books_1 db0) \<and> (7, 5) \<in> set (tables.books db0)
   \<and> get_db (delete_book 7) db0
      = (Inr \<lparr>Book.id = 7, title = ''T'', pages = 11, stock = 3, price = 1,
               release = (2020, 1, 1), time = (9, 0, 0)\<rparr>,
         db0\<lparr>tables.book := [], books_1 := [], tables.books := []\<rparr>)
   \<and> (1, 7) \<notin> set (books_1 (snd (get_db (delete_book 7) db0)))
   \<and> (7, 5) \<notin> set (tables.books (snd (get_db (delete_book 7) db0)))"
  by (simp add: get_db_def delete_book_def SessionLocal_def commit_def db0_def)

text \<open>
  C7, as the code has it. No delete endpoint issues a statement on an association table
  of its own; the rows go with the entity because its relationships are declared over
  the secondary tables. Deleting a Book, an Author or a Library that exists succeeds,
  and removes from each association table of the entity exactly the rows that link it
  to a related row that exists; every other row, and the association table the entity
  has no part in, is left as it was. When the foreign keys of the tables are valid, no
  row naming the deleted id is left, and the foreign keys are valid afterwards.
\<close>

theorem C7_delete_removes_links:
  "(book_id \<in> set (ids BookE db) \<longrightarrow>
      (\<exists>b. fst (get_db (delete_book book_id) db) = Inr b \<and> Book.id b = book_id)
      \<and> books_1 (snd (get_db (delete_book book_id) db))
          = filter (\<lambda>r. \<not> (snd r = book_id \<and> fst r \<in> set (ids AuthorE db))) (books_1 db)
      \<and> tables.books (snd (get_db (delete_book book_id) db))
          = filter (\<lambda>r. \<not> (fst r = book_id \<and> snd r \<in> set (ids LibraryE db))) (tables.books db)
      \<and> (foreign_keys_valid db \<longrightarrow>
            book_id \<notin> snd ` set (books_1 (snd (get_db (delete_book book_id) db)))
          \<and> book_id \<notin> fst ` set (tables.books (snd (get_db (delete_book book_id) db)))
          \<and> foreign_keys_valid (snd (get_db (delete_book book_id) db))))
   \<and> (author_id \<in> set (ids AuthorE db) \<longrightarrow>
      (\<exists>a. fst (get_db (delete_author author_id) db) = Inr a \<and> Author.id a = author_id)
      \<and> books_1 (snd (get_db (delete_author author_id) db))
          = filter (\<lambda>r. \<not> (fst r = author_id \<and> snd r \<in> set (ids BookE db))) (books_1 db)
      \<and> tables.books (snd (get_db (delete_author author_id) db)) = tables.books db
      \<and> (foreign_keys_valid db \<longrightarrow>
            author_id \<notin> fst ` set (books_1 (snd (get_db (delete_author author_id) db)))
          \<and> foreign_keys_valid (snd (get_db (delete_author author_id) db))))
   \<and> (library_id \<in> set (ids LibraryE db) \<longrightarrow>
      (\<exists>l. fst (get_db (delete_library library_id) db) = Inr l \<and> Library.id l = library_id)
      \<and> tables.books (snd (get_db (delete_library library_id) db))
          = filter (\<lambda>r. \<not> (snd r = library_id \<and> fst r \<in> set (ids BookE db))) (tables.books db)
      \<and> books_1 (snd (get_db (delete_library library_id) db)) = books_1 db
      \<and> (foreign_keys_valid db \<longrightarrow>
            library_id \<notin> snd ` set (tables.books (snd (get_db (delete_library library_id) db)))
          \<and> foreign_keys_valid (snd (get_db (delete_library library_id) db))))"
proof (intro conjI impI)
  assume m: "book_id \<in> set (ids BookE db)"
  obtain b where f: "find (\<lambda>b. Book.id b = book_id) (tables.book db) = Some b"
    using m find_Book_None [of book_id db]
    by (cases "find (\<lambda>b. Book.id b = book_id) (tables.book db)") auto
  have b: "Book.id b = book_id"
    "get_db (delete_book book_id) db =
     (Inr b, db\<lparr>tables.book := filter (\<lambda>b. Book.id b \<noteq> book_id) (tables.book db),
                books_1 := filter (\<lambda>r. \<not> (snd r = book_id \<and> fst r \<in> set (ids AuthorE db))) (books_1 db),
                tables.books := filter (\<lambda>r. \<not> (fst r = book_id \<and> snd r \<in> set (ids LibraryE db)))
                                  (tables.books db)\<rparr>)"
    using find_Book_id [OF f] delete_book_tables [OF f] by simp_all
  show "\<exists>b. fst (get_db (delete_book book_id) db) = Inr b \<and> Book.id b = book_id"
    using b by simp
  show "books_1 (snd (get_db (delete_book book_id) db))
          = filter (\<lambda>r. \<not> (snd r = book_id \<and> fst r \<in> set (ids AuthorE db))) (books_1 db)"
    using b by simp
  show "tables.books (snd (get_db (delete_book book_id) db))
          = filter (\<lambda>r. \<not> (fst r = book_id \<and> snd r \<in> set (ids LibraryE db))) (tables.books db)"
    using b by simp
  {
    assume fk: "foreign_keys_valid db"
    show "book_id \<notin> snd ` set (books_1 (snd (get_db (delete_book book_id) db)))"
      using fk by (auto simp: b(2) foreign_keys_valid_iff)
    show "book_id \<notin> fst ` set (tables.books (snd (get_db (delete_book book_id) db)))"
      using fk by (auto simp: b(2) foreign_keys_valid_iff)
    show "foreign_keys_valid (snd (get_db (delete_book book_id) db))"
      using fk by (auto simp: b(2) foreign_keys_valid_iff)
  }
next
  assume m: "author_id \<in> set (ids AuthorE db)"
  obtain a where f: "find (\<lambda>a. Author.id a = author_id) (tables.author db) = Some a"
    using m find_Author_None [of author_id db]
    by (cases "find (\<lambda>a. Author.id a = author_id) (tables.author db)") auto
  have a: "Author.id a = author_id"
    "get_db (delete_author author_id) db =
     (Inr a, db\<lparr>tables.author := filter (\<lambda>a. Author.id a \<noteq> author_id) (tables.author db),
                books_1 := filter (\<lambda>r. \<not> (fst r = author_id \<and> snd r \<in> set (ids BookE db))) (books_1 db)\<rparr>)"
    using find_Author_id [OF f] delete_author_tables [OF f] by simp_all
  show "\<exists>a. fst (get_db (delete_author author_id) db) = Inr a \<and> Author.id a = author_id"
    using a by simp
  show "books_1 (snd (get_db (delete_author author_id) db))
          = filter (\<lambda>r. \<not> (fst r = author_id \<and> snd r \<in> set (ids BookE db))) (books_1 db)"
    using a by simp
  show "tables.books (snd (get_db (delete_author author_id) db)) = tables.books db"
    using a by simp
  {
    assume fk: "foreign_keys_valid db"
    show "author_id \<notin> fst ` set (books_1 (snd (get_db (delete_author author_id) db)))"
      using fk by (auto simp: a(2) foreign_keys_valid_iff)
    show "foreign_keys_valid (snd (get_db (delete_author author_id) db))"
      using fk by (auto simp: a(2) foreign_keys_valid_iff)
  }
next
  assume m: "library_id \<in> set (ids LibraryE db)"
  obtain l where f: "find (\<lambda>l. Library.id l = library_id) (tables.library db) = Some l"
    using m find_Library_None [of library_id db]
    by (cases "find (\<lambda>l. Library.id l = library_id) (tables.library db)") auto
  have l: "Library.id l = library_id"
    "get_db (delete_library library_id) db =
     (Inr l, db\<lparr>tables.library := filter (\<lambda>l. Library.id l \<noteq> library_id) (tables.library db),
                tables.books := filter (\<lambda>r. \<not> (snd r = library_id \<and> fst r \<in> set (ids BookE db)))
                                  (tables.books db)\<rparr>)"
    using find_Library_id [OF f] delete_library_tables [OF f] by simp_all
  show "\<exists>l. fst (get_db (delete_library library_id) db) = Inr l \<and> Library.id l = library_id"
    using l by simp
  show "tables.books (snd (get_db (delete_library library_id) db))
          = filter (\<lambda>r. \<not> (snd r = library_id \<and> fst r \<in> set (ids BookE db))) (tables.books db)"
    using l by simp
  show "books_1 (snd (get_db (delete_library library_id) db)) = books_1 db"
    using l by simp
  {
    assume fk: "foreign_keys_valid db"
    show "library_id \<notin> snd ` set (tables.books (snd (get_db (delete_library library_id) db)))"
      using fk by (auto simp: l(2) foreign_keys_valid_iff)
    show "foreign_keys_valid (snd (get_db (delete_library library_id) db))"
      using fk by (auto simp: l(2) foreign_keys_valid_iff)
  }
qed

theorem C7_delete_removes_links_witness:
  "7 \<in> set (ids BookE db0) \<and> 1 \<in> set (ids AuthorE db0) \<and> 5 \<in> set (ids LibraryE db0)
   \<and> foreign_keys_valid db0
   \<and> books_1 (snd (get_db (delete_book 7) db0)) = []
   \<and> tables.books (snd (get_db (delete_book 7) db0)) = []
   \<and> books_1 (snd (get_db (delete_author 1) db0)) = [(2, 7)]
   \<and> tables.books (snd (get_db (delete_library 5) db0)) = []
   \<and> foreign_keys_valid (snd (get_db (delete_author 1) db0))"
proof -
  have m: "7 \<in> set (ids BookE db0)" "1 \<in> set (ids AuthorE db0)" "5 \<in> set (ids LibraryE db0)"
    "foreign_keys_valid db0"
    by (simp_all add: db0_def foreign_keys_valid_def)
  have e: "filter (\<lambda>r. \<not> (snd r = 7 \<and> fst r \<in> set (ids AuthorE db0))) (books_1 db0) = []"
    "filter (\<lambda>r. \<not> (fst r = 7 \<and> snd r \<in> set (ids LibraryE db0))) (tables.books db0) = []"
    "filter (\<lambda>r. \<not> (fst r = 1 \<and> snd r \<in> set (ids BookE db0))) (books_1 db0) = [(2, 7)]"
    "filter (\<lambda>r. \<not> (snd r = 5 \<and> fst r \<in> set (ids BookE db0))) (tables.books db0) = []"
    by (simp_all add: db0_def)
  show ?thesis
    using C7_delete_removes_links [of 7 db0 1 5] m e by simp
qed

section \<open>Creating a Book is not atomic\<close>

lemma link_each_conflict:
  assumes "set is \<subseteq> set (ids E (working s))" "committed s = working s"
    "\<not> (distinct (map mk is) \<and> mk ` set is \<inter> set (rows tbl (working s)) = {})"
  shows "\<exists>pre i post. is = pre @ i # post \<and>
           link_each E tbl mk is s =
             (Some IntegrityError,
              s\<lparr>working := set_rows tbl (rows tbl (working s) @ map mk pre) (working s),
                committed := set_rows tbl (rows tbl (working s) @ map mk pre) (working s)\<rparr>)"
  using assms
proof (induction "is" arbitrary: s)
  case Nil
  then show ?case by simp
next
  case (Cons i "is")
  have q: "query_first_id E (working s) i = Some i"
    using Cons.prems(1) by (simp add: query_first_id_mem)
  show ?case
  proof (cases "mk i \<in> set (rows tbl (working s))")
    case True
    have "link_each E tbl mk (i # is) s = (Some IntegrityError, s)"
      using True by (simp add: q execute_insert_def)
    moreover have "s\<lparr>working := set_rows tbl (rows tbl (working s) @ map mk []) (working s),
                committed := set_rows tbl (rows tbl (working s) @ map mk []) (working s)\<rparr> = s"
      using Cons.prems(2) by simp
    ultimately show ?thesis by (metis append_Nil)
  next
    case False
    let ?w = "set_rows tbl (rows tbl (working s) @ [mk i]) (working s)"
    let ?s1 = "s\<lparr>working := ?w, committed := ?w\<rparr>"
    have e: "link_each E tbl mk (i # is) s = link_each E tbl mk is ?s1"
      using False by (simp add: q execute_insert_def commit_def)
    have "\<exists>pre j post. is = pre @ j # post \<and>
           link_each E tbl mk is ?s1 =
             (Some IntegrityError,
              ?s1\<lparr>working := set_rows tbl (rows tbl (working ?s1) @ map mk pre) (working ?s1),
                committed := set_rows tbl (rows tbl (working ?s1) @ map mk pre) (working ?s1)\<rparr>)"
    proof (rule Cons.IH)
      show "set is \<subseteq> set (ids E (working ?s1))" using Cons.prems(1) by simp
      show "committed ?s1 = working ?s1" by simp
      show "\<not> (distinct (map mk is) \<and> mk ` set is \<inter> set (rows tbl (working ?s1)) = {})"
        using Cons.prems(3) False by auto
    qed
    then obtain pre j post where p: "is = pre @ j # post"
      "link_each E tbl mk is ?s1 =
             (Some IntegrityError,
              ?s1\<lparr>working := set_rows tbl (rows tbl (working ?s1) @ map mk pre) (working ?s1),
                committed := set_rows tbl (rows tbl (working ?s1) @ map mk pre) (working ?s1)\<rparr>)"
      by blast
    have "i # is = (i # pre) @ j # post" using p(1) by simp
    moreover have "link_each E tbl mk (i # is) s =
             (Some IntegrityError,
              s\<lparr>working := set_rows tbl (rows tbl (working s) @ map mk (i # pre)) (working s),
                committed := set_rows tbl (rows tbl (working s) @ map mk (i # pre)) (working s)\<rparr>)"
      unfolding e p(2) by simp
    ultimately show ?thesis by blast
  qed
qed

lemma next_id_fresh: "next_id is \<notin> set is"
proof (cases "is = []")
  case True
  then show ?thesis by simp
next
  case False
  have "x < next_id is" if "x \<in> set is" for x
  proof -
    have "x \<le> Max (set is)" using that by simp
    then show ?thesis using False by (simp add: next_id_def)
  qed
  then show ?thesis by blast
qed

text \<open>
  C10. \<^verbatim>\<open>create_book\<close> commits the Book row first, and then each association row on
  its own. When every listed Author and Library exists, the store can hold the two
  integers of the payload and the list of authors names some id twice, the endpoint
  fails with an integrity error (answered 409) at an insert that the composite primary
  key of \<^verbatim>\<open>books_1\<close> refuses; the new Book row is persisted by then, together with the
  association rows of a proper prefix of the requested authors, and no Library is
  linked. (When the store cannot hold one of the two integers the first commit fails,
  and nothing is persisted at all.)
\<close>

theorem C10_create_book_not_atomic:
  "(set (authors d) \<subseteq> set (ids AuthorE db) \<and> set (BookCreate.library d) \<subseteq> set (ids LibraryE db)
    \<and> storable (BookCreate.pages d) \<and> storable (BookCreate.stock d)
    \<and> \<not> distinct (authors d) \<longrightarrow>
    (\<exists>pre i post. authors d = pre @ i # post \<and>
      get_db (create_book d) db =
        (Inl IntegrityError,
         db\<lparr>tables.book := tables.book db @
                [\<lparr>Book.id = next_id (ids BookE db), title = BookCreate.title d,
                  pages = BookCreate.pages d, stock = BookCreate.stock d,
                  price = BookCreate.price d, release = BookCreate.release d,
                  time = BookCreate.time d\<rparr>],
             books_1 := books_1 db @ map (\<lambda>a. (a, next_id (ids BookE db))) pre\<rparr>)))
   \<and> (set (authors d) \<subseteq> set (ids AuthorE db) \<and> set (BookCreate.library d) \<subseteq> set (ids LibraryE db)
    \<and> \<not> (storable (BookCreate.pages d) \<and> storable (BookCreate.stock d)) \<longrightarrow>
    get_db (create_book d) db = (Inl overflow, db))"
proof (intro conjI impI; elim conjE)
  assume a: "set (authors d) \<subseteq> set (ids AuthorE db)"
    and l: "set (BookCreate.library d) \<subseteq> set (ids LibraryE db)"
    and n: "\<not> (storable (BookCreate.pages d) \<and> storable (BookCreate.stock d))"
  have fa: "first_missing AuthorE db (authors d) = None"
    using a by (simp add: first_missing_None)
  have fl: "first_missing LibraryE db (BookCreate.library d) = None"
    using l by (simp add: first_missing_None)
  have fb: "flush_Book \<lparr>Book.id = next_id (ids BookE db), title = BookCreate.title d,
                  pages = BookCreate.pages d, stock = BookCreate.stock d,
                  price = BookCreate.price d, release = BookCreate.release d,
                  time = BookCreate.time d\<rparr> = Some overflow"
    using n by (auto simp: flush_Book_def)
  show "get_db (create_book d) db = (Inl overflow, db)"
    using fb unfolding get_db_def create_book_def
    by (simp add: SessionLocal_def fa fl Let_def)
next
  assume a: "set (authors d) \<subseteq> set (ids AuthorE db)"
    and l: "set (BookCreate.library d) \<subseteq> set (ids LibraryE db)"
    and st: "storable (BookCreate.pages d)" "storable (BookCreate.stock d)"
    and nd: "\<not> distinct (authors d)"
  let ?n = "next_id (ids BookE db)"
  let ?b = "\<lparr>Book.id = ?n, title = BookCreate.title d,
                  pages = BookCreate.pages d, stock = BookCreate.stock d,
                  price = BookCreate.price d, release = BookCreate.release d,
                  time = BookCreate.time d\<rparr>"
  let ?w = "db\<lparr>tables.book := tables.book db @ [?b]\<rparr>"
  let ?s1 = "\<lparr>committed = ?w, working = ?w, deactive = False\<rparr>"
  have inj: "inj (\<lambda>a. (a, ?n))" by (simp add: inj_on_def)
  have "\<exists>pre i post. authors d = pre @ i # post \<and>
           link_each AuthorE Books_1 (\<lambda>a. (a, ?n)) (authors d) ?s1 =
             (Some IntegrityError,
              ?s1\<lparr>working := set_rows Books_1 (rows Books_1 (working ?s1) @ map (\<lambda>a. (a, ?n)) pre) (working ?s1),
                committed := set_rows Books_1 (rows Books_1 (working ?s1) @ map (\<lambda>a. (a, ?n)) pre) (working ?s1)\<rparr>)"
  proof (rule link_each_conflict)
    show "set (authors d) \<subseteq> set (ids AuthorE (working ?s1))" using a by simp
    show "committed ?s1 = working ?s1" by simp
    show "\<not> (distinct (map (\<lambda>a. (a, ?n)) (authors d))
            \<and> (\<lambda>a. (a, ?n)) ` set (authors d) \<inter> set (rows Books_1 (working ?s1)) = {})"
      using nd by (simp add: distinct_map)
  qed
  then obtain pre i post where p: "authors d = pre @ i # post"
    "link_each AuthorE Books_1 (\<lambda>a. (a, ?n)) (authors d) ?s1 =
             (Some IntegrityError,
              ?s1\<lparr>working := set_rows Books_1 (rows Books_1 (working ?s1) @ map (\<lambda>a. (a, ?n)) pre) (working ?s1),
                committed := set_rows Books_1 (rows Books_1 (working ?s1) @ map (\<lambda>a. (a, ?n)) pre) (working ?s1)\<rparr>)"
    by blast
  have fa: "first_missing AuthorE db (authors d) = None"
    using a by (simp add: first_missing_None)
  have fl: "first_missing LibraryE db (BookCreate.library d) = None"
    using l by (simp add: first_missing_None)
  have "get_db (create_book d) db =
        (Inl IntegrityError,
         db\<lparr>tables.book := tables.book db @ [?b],
             books_1 := books_1 db @ map (\<lambda>a. (a, ?n)) pre\<rparr>)"
    using p(2) st unfolding get_db_def create_book_def
    by (simp add: SessionLocal_def fa fl Let_def add_Book_def commit_def flush_Book_def)
  then show "\<exists>pre i post. authors d = pre @ i # post \<and>
      get_db (create_book d) db =
        (Inl IntegrityError,
         db\<lparr>tables.book := tables.book db @ [?b],
             books_1 := books_1 db @ map (\<lambda>a. (a, ?n)) pre\<rparr>)"
    using p(1) by blast
qed

theorem C10_create_book_not_atomic_witness:
  "set [1, 2, 1] \<subseteq> set (ids AuthorE db0) \<and> set [5] \<subseteq> set (ids LibraryE db0)
   \<and> storable 12 \<and> storable 3
   \<and> \<not> distinct [1, 2, 1 :: int]
   \<and> (\<exists>pre i post. [1, 2, 1] = pre @ i # post \<and>
        get_db (create_book (data0\<lparr>authors := [1, 2, 1]\<rparr>)) db0 =
          (Inl IntegrityError,
           db0\<lparr>tables.book := tables.book db0 @
                  [\<lparr>Book.id = next_id (ids BookE db0), title = ''T'', pages = 12, stock = 3,
                    price = 1, release = (2020, 1, 1), time = (9, 0, 0)\<rparr>],
               books_1 := books_1 db0 @ map (\<lambda>a. (a, next_id (ids BookE db0))) pre\<rparr>))
   \<and> get_db (create_book (data0\<lparr>authors := [1, 2, 1]\<rparr>)) db0 =
          (Inl IntegrityError,
           db0\<lparr>tables.book := tables.book db0 @
                  [\<lparr>Book.id = 8, title = ''T'', pages = 12, stock = 3,
                    price = 1, release = (2020, 1, 1), time = (9, 0, 0)\<rparr>],
               books_1 := [(1, 7), (2, 7), (1, 8), (2, 8)]\<rparr>)
   \<and> status_code IntegrityError = 409"
proof -
  have h: "set [1, 2, 1] \<subseteq> set (ids AuthorE db0)" "set [5] \<subseteq> set (ids LibraryE db0)"
    "\<not> distinct [1, 2, 1 :: int]" "storable 12" "storable 3"
    by (simp_all add: db0_def storable_def)
  have e: "get_db (create_book (data0\<lparr>authors := [1, 2, 1]\<rparr>)) db0 =
          (Inl IntegrityError,
           db0\<lparr>tables.book := tables.book db0 @
                  [\<lparr>Book.id = 8, title = ''T'', pages = 12, stock = 3,
                    price = 1, release = (2020, 1, 1), time = (9, 0, 0)\<rparr>],
               books_1 := [(1, 7), (2, 7), (1, 8), (2, 8)]\<rparr>)"
    by code_simp
  show ?thesis
    using C10_create_book_not_atomic [of "data0\<lparr>authors := [1, 2, 1]\<rparr>" db0] h e
    by (simp add: data0_def)
qed

section \<open>Bulk create\<close>

lemma body_errors_upt:
  "body_errors k bs =
     map (\<lambda>i. (k + i, ValueError ''pages must be > 10''))
       (filter (\<lambda>i. BookCreate.pages (bs ! i) \<le> 10) [0..<length bs])"
proof (induction bs arbitrary: k)
  case Nil
  then show ?case by simp
next
  case (Cons b bs)
  have u: "[0..<length (b # bs)] = 0 # map Suc [0..<length bs]"
    by (simp add: upt_conv_Cons map_Suc_upt del: upt_Suc)
  show ?case
    unfolding u
    by (simp add: Cons.IH BookCreate_validate_def validate_pages_1_def filter_map comp_def)
qed

lemma body_errors_Nil: "(body_errors k bs = []) = (\<forall>b\<in>set bs. 10 < BookCreate.pages b)"
  by (induction bs arbitrary: k) (auto simp: BookCreate_validate_def validate_pages_1_def)

lemma bulk_loop_committed:
  assumes "\<And>item s r s'. add_flush item s = (r, s') \<Longrightarrow> committed s' = committed s"
    and "bulk_loop add_flush idx items s c e = (s', c', e')"
  shows "committed s' = committed s"
  using assms(2)
proof (induction items arbitrary: idx s c e)
  case Nil
  then show ?case by simp
next
  case (Cons item items)
  obtain r s1 where a: "add_flush item s = (r, s1)" by (cases "add_flush item s")
  have c1: "committed s1 = committed s" using assms(1) [OF a] .
  show ?case
  proof (cases r)
    case (Inl m)
    then have "bulk_loop add_flush (Suc idx) items s1 c (e @ [(idx, m)]) = (s', c', e')"
      using Cons.prems a by simp
    from Cons.IH [OF this] c1 show ?thesis by simp
  next
    case (Inr i)
    then have "bulk_loop add_flush (Suc idx) items s1 (c @ [i]) e = (s', c', e')"
      using Cons.prems a by simp
    from Cons.IH [OF this] c1 show ?thesis by simp
  qed
qed

lemma bulk_loop_errors_grow:
  "bulk_loop add_flush idx items s c e = (s', c', e') \<Longrightarrow> \<exists>es. e' = e @ es"
proof (induction items arbitrary: idx s c e)
  case Nil
  then show ?case by simp
next
  case (Cons item items)
  obtain r s1 where a: "add_flush item s = (r, s1)" by (cases "add_flush item s")
  show ?case
  proof (cases r)
    case (Inl m)
    then have "bulk_loop add_flush (Suc idx) items s1 c (e @ [(idx, m)]) = (s', c', e')"
      using Cons.prems a by simp
    from Cons.IH [OF this] show ?thesis by auto
  next
    case (Inr i)
    then have "bulk_loop add_flush (Suc idx) items s1 (c @ [i]) e = (s', c', e')"
      using Cons.prems a by simp
    from Cons.IH [OF this] show ?thesis by simp
  qed
qed

lemma bulk_loop_success:
  assumes A: "\<And>item s i s'. add_flush item s = (Inr i, s') \<Longrightarrow>
      i \<notin> set (ids E (working s)) \<and> set (ids E (working s)) \<subseteq> set (ids E (working s'))
      \<and> i \<in> set (ids E (working s'))
      \<and> books_1 (working s') = books_1 (working s)
      \<and> tables.books (working s') = tables.books (working s)"
    and "bulk_loop add_flush idx items s c e = (s', c', [])"
  shows "e = [] \<and> books_1 (working s') = books_1 (working s)
         \<and> tables.books (working s') = tables.books (working s)
         \<and> set (ids E (working s)) \<subseteq> set (ids E (working s'))
         \<and> (\<exists>new. c' = c @ new \<and> length new = length items
                \<and> set new \<inter> set (ids E (working s)) = {}
                \<and> set new \<subseteq> set (ids E (working s')))"
  using assms(2)
proof (induction items arbitrary: idx s c e)
  case Nil
  then show ?case by simp
next
  case (Cons item items)
  obtain r s1 where a: "add_flush item s = (r, s1)" by (cases "add_flush item s")
  show ?case
  proof (cases r)
    case (Inl m)
    then have "bulk_loop add_flush (Suc idx) items s1 c (e @ [(idx, m)]) = (s', c', [])"
      using Cons.prems a by simp
    from bulk_loop_errors_grow [OF this] show ?thesis by simp
  next
    case (Inr i)
    then have l: "bulk_loop add_flush (Suc idx) items s1 (c @ [i]) e = (s', c', [])"
      using Cons.prems a by simp
    have a1: "i \<notin> set (ids E (working s))" "set (ids E (working s)) \<subseteq> set (ids E (working s1))"
      "i \<in> set (ids E (working s1))"
      "books_1 (working s1) = books_1 (working s)"
      "tables.books (working s1) = tables.books (working s)"
      using A [of item s i s1] a Inr by simp_all
    from Cons.IH [OF l] obtain new where n: "e = []"
      "books_1 (working s') = books_1 (working s1)"
      "tables.books (working s') = tables.books (working s1)"
      "set (ids E (working s1)) \<subseteq> set (ids E (working s'))"
      "c' = (c @ [i]) @ new" "length new = length items"
      "set new \<inter> set (ids E (working s1)) = {}"
      "set new \<subseteq> set (ids E (working s'))"
      by blast
    have "c' = c @ (i # new)" using n(5) by simp
    moreover have "length (i # new) = length (item # items)" using n(6) by simp
    moreover have "set (i # new) \<inter> set (ids E (working s)) = {}"
      using a1(1,2) n(7) by auto
    moreover have "set (i # new) \<subseteq> set (ids E (working s'))"
      using a1(3) n(4,8) by auto
    ultimately show ?thesis
      using n(1,2,3,4) a1 by (metis order_trans)
  qed
qed

lemma bulk_loop_map:
  assumes "\<And>item. add_flush (h item) = add_flush item"
  shows "bulk_loop add_flush idx (map h items) s c e = bulk_loop add_flush idx items s c e"
  by (induction items arbitrary: idx s c e) (simp_all add: assms split: prod.splits sum.splits)

lemma bulk_loop_accepts:
  assumes "\<And>item s. \<not> deactive s \<Longrightarrow> \<exists>i s'. add_flush item s = (Inr i, s') \<and> \<not> deactive s'"
    and "\<not> deactive s"
  shows "\<exists>s' new. bulk_loop add_flush idx items s c e = (s', c @ new, e) \<and> length new = length items"
  using assms(2)
proof (induction items arbitrary: idx s c)
  case Nil
  then show ?case by simp
next
  case (Cons item items)
  from assms(1) [OF Cons.prems] obtain i s1 where a: "add_flush item s = (Inr i, s1)" "\<not> deactive s1"
    by blast
  from Cons.IH [OF a(2), of "Suc idx" "c @ [i]"] obtain s' new where
    n: "bulk_loop add_flush (Suc idx) items s1 (c @ [i]) e = (s', (c @ [i]) @ new, e)"
       "length new = length items" by blast
  have "bulk_loop add_flush idx (item # items) s c e = (s', c @ (i # new), e)"
    using a(1) n(1) by simp
  moreover have "length (i # new) = length (item # items)" using n(2) by simp
  ultimately show ?case by blast
qed


lemma add_flush_Book_Inr:
  assumes "add_flush_Book fe item s = (Inr i, s')"
  shows "i \<notin> set (ids BookE (working s)) \<and> set (ids BookE (working s)) \<subseteq> set (ids BookE (working s'))
      \<and> i \<in> set (ids BookE (working s'))
      \<and> books_1 (working s') = books_1 (working s)
      \<and> tables.books (working s') = tables.books (working s)"
  using assms next_id_fresh [of "ids BookE (working s)"]
  by (auto simp: add_flush_Book_def Let_def add_Book_def split: if_splits option.splits)

lemma add_flush_Author_Inr:
  assumes "add_flush_Author fe item s = (Inr i, s')"
  shows "i \<notin> set (ids AuthorE (working s)) \<and> set (ids AuthorE (working s)) \<subseteq> set (ids AuthorE (working s'))
      \<and> i \<in> set (ids AuthorE (working s'))
      \<and> books_1 (working s') = books_1 (working s)
      \<and> tables.books (working s') = tables.books (working s)"
  using assms next_id_fresh [of "ids AuthorE (working s)"]
  by (auto simp: add_flush_Author_def Let_def add_Author_def split: if_splits option.splits)

lemma add_flush_Library_Inr:
  assumes "add_flush_Library fe item s = (Inr i, s')"
  shows "i \<notin> set (ids LibraryE (working s)) \<and> set (ids LibraryE (working s)) \<subseteq> set (ids LibraryE (working s'))
      \<and> i \<in> set (ids LibraryE (working s'))
      \<and> books_1 (working s') = books_1 (working s)
      \<and> tables.books (working s') = tables.books (working s)"
  using assms next_id_fresh [of "ids LibraryE (working s)"]
  by (auto simp: add_flush_Library_def Let_def add_Library_def split: if_splits option.splits)

lemma add_flush_Book_committed: "add_flush_Book fe item s = (r, s') \<Longrightarrow> committed s' = committed s"
  by (auto simp: add_flush_Book_def Let_def add_Book_def flush_failed_def split: if_splits option.splits)

lemma add_flush_Author_committed: "add_flush_Author fe item s = (r, s') \<Longrightarrow> committed s' = committed s"
  by (auto simp: add_flush_Author_def Let_def add_Author_def flush_failed_def split: if_splits option.splits)

lemma add_flush_Library_committed: "add_flush_Library fe item s = (r, s') \<Longrightarrow> committed s' = committed s"
  by (auto simp: add_flush_Library_def Let_def add_Library_def flush_failed_def split: if_splits option.splits)

text \<open>What a bulk endpoint leaves behind, for any body of its \<^verbatim>\<open>try\<close>.\<close>

lemma bulk_create_failure:
  assumes c: "\<And>item s r s'. add_flush item s = (r, s') \<Longrightarrow> committed s' = committed s"
    and f: "get_db (bulk_create add_flush E items) db = (Inl e, db')"
  shows "db' = db \<and> (\<exists>errors. errors \<noteq> []
            \<and> e = HTTPException 400 (BulkErrors ''Bulk creation failed'' errors))"
proof -
  obtain s' c' e' where l: "bulk_loop add_flush 0 items (SessionLocal db) [] [] = (s', c', e')"
    by (cases "bulk_loop add_flush 0 items (SessionLocal db) [] []") auto
  have cm: "committed s' = db"
    using bulk_loop_committed [OF c l] by (simp add: SessionLocal_def)
  show ?thesis
    using f cm unfolding get_db_def bulk_create_def l
    by (auto simp: rollback_def commit_def split: if_splits)
qed

lemma bulk_create_success:
  assumes A: "\<And>item s i s'. add_flush item s = (Inr i, s') \<Longrightarrow>
      i \<notin> set (ids E (working s)) \<and> set (ids E (working s)) \<subseteq> set (ids E (working s'))
      \<and> i \<in> set (ids E (working s'))
      \<and> books_1 (working s') = books_1 (working s)
      \<and> tables.books (working s') = tables.books (working s)"
    and f: "get_db (bulk_create add_flush E items) db = (Inr r, db')"
  shows "books_1 db' = books_1 db \<and> tables.books db' = tables.books db
         \<and> length (created_ids r) = length items \<and> created_count r = length items
         \<and> set (created_ids r) \<inter> set (ids E db) = {}
         \<and> set (created_ids r) \<subseteq> set (ids E db')
         \<and> set (ids E db) \<subseteq> set (ids E db')"
proof -
  obtain s' c' e' where l: "bulk_loop add_flush 0 items (SessionLocal db) [] [] = (s', c', e')"
    by (cases "bulk_loop add_flush 0 items (SessionLocal db) [] []") auto
  have e': "e' = []" and r: "r = \<lparr>created_count = length c', created_ids = c',
        message = ''Successfully created '' @ str (int (length c')) @ '' '' @ entity_name E @ '' entities''\<rparr>"
    and d: "db' = working s'"
    using f unfolding get_db_def bulk_create_def l
    by (auto simp: commit_def split: if_splits)
  from bulk_loop_success [of add_flush E, OF A l [unfolded e']]
  show ?thesis
    by (auto simp: r d SessionLocal_def)
qed

lemma no_links_of_fresh:
  assumes "foreign_keys_valid db"
  shows "i \<notin> set (ids BookE db) \<Longrightarrow> linked Books_1 snd fst i (db'\<lparr>books_1 := books_1 db\<rparr>) = []"
    and "i \<notin> set (ids BookE db) \<Longrightarrow> linked Books fst snd i (db'\<lparr>tables.books := tables.books db\<rparr>) = []"
    and "i \<notin> set (ids AuthorE db) \<Longrightarrow> linked Books_1 fst snd i (db'\<lparr>books_1 := books_1 db\<rparr>) = []"
    and "i \<notin> set (ids LibraryE db) \<Longrightarrow> linked Books snd fst i (db'\<lparr>tables.books := tables.books db\<rparr>) = []"
  using assms
  by (auto simp: linked_Nil foreign_keys_valid_iff)

lemma linked_cong:
  "rows tbl t' = rows tbl t \<Longrightarrow> linked tbl owner other i t' = linked tbl owner other i t"
  by (simp add: linked_def)

lemma fresh_unlinked:
  assumes "foreign_keys_valid db" "books_1 db' = books_1 db" "tables.books db' = tables.books db"
  shows "i \<notin> set (ids BookE db) \<Longrightarrow> linked Books_1 snd fst i db' = [] \<and> linked Books fst snd i db' = []"
    and "i \<notin> set (ids AuthorE db) \<Longrightarrow> linked Books_1 fst snd i db' = []"
    and "i \<notin> set (ids LibraryE db) \<Longrightarrow> linked Books snd fst i db' = []"
  using assms
  by (auto simp: linked_Nil foreign_keys_valid_iff)

lemma bulk_create_book_eq: "bulk_create_book fe items = bulk_create (add_flush_Book fe) BookE items"
  and bulk_create_author_eq: "bulk_create_author fa aitems = bulk_create (add_flush_Author fa) AuthorE aitems"
  and bulk_create_library_eq: "bulk_create_library fl litems = bulk_create (add_flush_Library fl) LibraryE litems"
  by (simp_all add: fun_eq_iff bulk_create_book_def bulk_create_author_def bulk_create_library_def)

lemma bulk_create_book_failure:
  assumes "get_db (bulk_create_book fe items) db = (Inl e, db')"
  shows "db' = db \<and> (\<exists>errors. errors \<noteq> []
            \<and> e = HTTPException 400 (BulkErrors ''Bulk creation failed'' errors))"
  using add_flush_Book_committed assms [unfolded bulk_create_book_eq]
  by (rule bulk_create_failure)

text \<open>
  C4. A bulk create of Books in which some item fails validation (its pages are at most
  10) persists nothing: the request is answered with one error for each failing item
  and no other, each under the index of its item in the submitted list, and the tables
  are left as they were. More generally, whenever the request fails the tables are left
  as they were; and when the loop of the endpoint itself meets a failing flush, the
  endpoint rolls the whole batch back and answers 400.
\<close>

theorem C4_bulk_create_all_or_nothing:
  "((\<exists>b\<in>set body. BookCreate.pages b \<le> 10) \<longrightarrow>
      post_book_bulk fe body db =
        (Inl (RequestValidationError
           (map (\<lambda>i. (i, ValueError ''pages must be > 10''))
              (filter (\<lambda>i. BookCreate.pages (body ! i) \<le> 10) [0..<length body]))), db))
   \<and> (fst (post_book_bulk fe body db) = Inl e \<longrightarrow> snd (post_book_bulk fe body db) = db)
   \<and> (get_db (bulk_create_book fe items) db = (Inl e', db') \<longrightarrow>
        db' = db \<and> status_code e' = 400)"
proof (intro conjI impI)
  assume "\<exists>b\<in>set body. BookCreate.pages b \<le> 10"
  then have "body_errors 0 body \<noteq> []"
    using body_errors_Nil [of 0 body] by auto
  then show "post_book_bulk fe body db =
        (Inl (RequestValidationError
           (map (\<lambda>i. (i, ValueError ''pages must be > 10''))
              (filter (\<lambda>i. BookCreate.pages (body ! i) \<le> 10) [0..<length body]))), db)"
    using body_errors_upt [of 0 body] by (simp add: post_book_bulk_def)
next
  assume f: "fst (post_book_bulk fe body db) = Inl e"
  show "snd (post_book_bulk fe body db) = db"
  proof (cases "body_errors 0 body = []")
    case False
    then show ?thesis by (simp add: post_book_bulk_def)
  next
    case True
    then have "get_db (bulk_create_book fe body) db
               = (Inl e, snd (get_db (bulk_create_book fe body) db))"
      using f by (simp add: post_book_bulk_def prod_eq_iff)
    from bulk_create_book_failure [OF this]
    show ?thesis using True by (simp add: post_book_bulk_def)
  qed
next
  assume f: "get_db (bulk_create_book fe items) db = (Inl e', db')"
  from bulk_create_book_failure [OF f]
  show "db' = db" and "status_code e' = 400" by auto
qed


theorem C4_bulk_create_all_or_nothing_witness:
  "post_book_bulk fe0 [data0, data0\<lparr>BookCreate.pages := 5\<rparr>, data0] db0
     = (Inl (RequestValidationError [(1, ValueError ''pages must be > 10'')]), db0)
   \<and> snd (post_book_bulk fe0 [data0, data0\<lparr>BookCreate.pages := 5\<rparr>, data0] db0) = db0
   \<and> get_db (bulk_create_book fe0 [data0, data0\<lparr>BookCreate.title := ''bad''\<rparr>, data0]) db0
     = (Inl (HTTPException 400 (BulkErrors ''Bulk creation failed''
              [(1, ''refused''), (2, ''PendingRollbackError'')])), db0)
   \<and> post_book_bulk fe0 [data0, data0] db0
          = (Inr \<lparr>created_count = 2, created_ids = [8, 9],
                  message = ''Successfully created 2 Book entities''\<rparr>,
             db0\<lparr>tables.book := tables.book db0 @
               [\<lparr>Book.id = 8, title = ''T'', pages = 12, stock = 3, price = 1,
                  release = (2020, 1, 1), time = (9, 0, 0)\<rparr>,
                \<lparr>Book.id = 9, title = ''T'', pages = 12, stock = 3, price = 1,
                  release = (2020, 1, 1), time = (9, 0, 0)\<rparr>]\<rparr>)"
proof -
  let ?body = "[data0, data0\<lparr>BookCreate.pages := 5\<rparr>, data0]"
  let ?items = "[data0, data0\<lparr>BookCreate.title := ''bad''\<rparr>, data0]"
  let ?e = "HTTPException 400 (BulkErrors ''Bulk creation failed''
              [(1, ''refused''), (2, ''PendingRollbackError'')])"
  have h: "\<exists>b\<in>set ?body. BookCreate.pages b \<le> 10" by (simp add: data0_def)
  have f: "filter (\<lambda>i. BookCreate.pages (?body ! i) \<le> 10) [0..<length ?body] = [1]"
    by (simp add: data0_def upt_conv_Cons)
  have g: "get_db (bulk_create_book fe0 ?items) db0 = (Inl ?e, db0)"
    by code_simp
  have k: "post_book_bulk fe0 [data0, data0] db0
          = (Inr \<lparr>created_count = 2, created_ids = [8, 9],
                  message = ''Successfully created 2 Book entities''\<rparr>,
             db0\<lparr>tables.book := tables.book db0 @
               [\<lparr>Book.id = 8, title = ''T'', pages = 12, stock = 3, price = 1,
                  release = (2020, 1, 1), time = (9, 0, 0)\<rparr>,
                \<lparr>Book.id = 9, title = ''T'', pages = 12, stock = 3, price = 1,
                  release = (2020, 1, 1), time = (9, 0, 0)\<rparr>]\<rparr>)"
    by code_simp
  show ?thesis
    using C4_bulk_create_all_or_nothing [where body = ?body and fe = fe0 and db = db0
        and e = "RequestValidationError [(1, ValueError ''pages must be > 10'')]"
        and items = ?items and e' = ?e and db' = db0] h f g k
    by simp
qed

section \<open>Bulk create and the relation lists\<close>

lemma bulk_create_book_success:
  assumes "get_db (bulk_create_book fe items) db = (Inr r, db')"
  shows "books_1 db' = books_1 db \<and> tables.books db' = tables.books db
         \<and> length (created_ids r) = length items \<and> created_count r = length items
         \<and> set (created_ids r) \<inter> set (ids BookE db) = {}
         \<and> set (created_ids r) \<subseteq> set (ids BookE db')
         \<and> set (ids BookE db) \<subseteq> set (ids BookE db')"
  using add_flush_Book_Inr assms [unfolded bulk_create_book_eq]
  by (rule bulk_create_success)

lemma bulk_create_author_success:
  assumes "get_db (bulk_create_author fe items) db = (Inr r, db')"
  shows "books_1 db' = books_1 db \<and> tables.books db' = tables.books db
         \<and> length (created_ids r) = length items \<and> created_count r = length items
         \<and> set (created_ids r) \<inter> set (ids AuthorE db) = {}
         \<and> set (created_ids r) \<subseteq> set (ids AuthorE db')
         \<and> set (ids AuthorE db) \<subseteq> set (ids AuthorE db')"
  using add_flush_Author_Inr assms [unfolded bulk_create_author_eq]
  by (rule bulk_create_success)

lemma bulk_create_library_success:
  assumes "get_db (bulk_create_library fe items) db = (Inr r, db')"
  shows "books_1 db' = books_1 db \<and> tables.books db' = tables.books db
         \<and> length (created_ids r) = length items \<and> created_count r = length items
         \<and> set (created_ids r) \<inter> set (ids LibraryE db) = {}
         \<and> set (created_ids r) \<subseteq> set (ids LibraryE db')
         \<and> set (ids LibraryE db) \<subseteq> set (ids LibraryE db')"
  using add_flush_Library_Inr assms [unfolded bulk_create_library_eq]
  by (rule bulk_create_success)

lemma bulk_create_map:
  assumes "\<And>item. add_flush (h item) = add_flush item"
  shows "bulk_create add_flush E (map h items) s = bulk_create add_flush E items s"
  by (simp add: bulk_create_def bulk_loop_map [of add_flush h, OF assms])

lemma bulk_create_author_accepts:
  assumes "\<And>a. fe a = None"
  shows "\<exists>r. fst (get_db (bulk_create_author fe items) db) = Inr r
             \<and> created_count r = length items"
proof -
  have "\<exists>s' new. bulk_loop (add_flush_Author fe) 0 items (SessionLocal db) [] []
            = (s', [] @ new, []) \<and> length new = length items"
  proof (rule bulk_loop_accepts)
    show "\<not> deactive (SessionLocal db)" by (simp add: SessionLocal_def)
    show "\<exists>i s'. add_flush_Author fe item s = (Inr i, s') \<and> \<not> deactive s'"
      if "\<not> deactive s" for item s
      using that by (simp add: add_flush_Author_def Let_def assms add_Author_def)
  qed
  then obtain s' new where l: "bulk_loop (add_flush_Author fe) 0 items (SessionLocal db) [] []
            = (s', new, [])" "length new = length items" by auto
  show ?thesis
    unfolding bulk_create_author_eq get_db_def bulk_create_def l
    by (simp add: l(2))
qed


text \<open>
  C9. The bulk endpoints never read the relation id lists of their items. A bulk create
  of Books, Authors or Libraries that succeeds leaves both association tables as they
  were, and, when the foreign keys of the tables are valid, no association row names a
  created entity: each has zero join rows. Replacing the relation lists of the items by
  any others does not change what the endpoint does. And \<^verbatim>\<open>bulk_create_author\<close> makes
  no at-least-one-book check: when the store takes every row it succeeds for every list
  of items, also for items with an empty list of books, which the single create refuses.
\<close>

theorem C9_bulk_create_ignores_relations:
  "(get_db (bulk_create_book fb items) db = (Inr r, db_b) \<longrightarrow>
      books_1 db_b = books_1 db \<and> tables.books db_b = tables.books db
      \<and> (foreign_keys_valid db \<longrightarrow>
           (\<forall>i\<in>set (created_ids r). linked Books_1 snd fst i db_b = []
                                    \<and> linked Books fst snd i db_b = [])))
   \<and> (get_db (bulk_create_author fa aitems) db = (Inr ra, db_a) \<longrightarrow>
      books_1 db_a = books_1 db \<and> tables.books db_a = tables.books db
      \<and> (foreign_keys_valid db \<longrightarrow>
           (\<forall>i\<in>set (created_ids ra). linked Books_1 fst snd i db_a = [])))
   \<and> (get_db (bulk_create_library fl litems) db = (Inr rl, db_l) \<longrightarrow>
      books_1 db_l = books_1 db \<and> tables.books db_l = tables.books db
      \<and> (foreign_keys_valid db \<longrightarrow>
           (\<forall>i\<in>set (created_ids rl). linked Books snd fst i db_l = [])))
   \<and> bulk_create_book fb
        (map (\<lambda>it. it\<lparr>authors := xs it, BookCreate.library := ys it\<rparr>) items) s
       = bulk_create_book fb items s
   \<and> bulk_create_author fa (map (\<lambda>it. it\<lparr>AuthorCreate.books := zs it\<rparr>) aitems) s
       = bulk_create_author fa aitems s
   \<and> bulk_create_library fl (map (\<lambda>it. it\<lparr>LibraryCreate.books := ws it\<rparr>) litems) s
       = bulk_create_library fl litems s
   \<and> ((\<forall>a. fa a = None) \<longrightarrow>
        (\<exists>r. fst (get_db (bulk_create_author fa aitems) db) = Inr r
             \<and> created_count r = length aitems))"
proof (intro conjI impI ballI)
  assume b: "get_db (bulk_create_book fb items) db = (Inr r, db_b)"
  note s = bulk_create_book_success [OF b]
  show "books_1 db_b = books_1 db" and "tables.books db_b = tables.books db"
    using s by simp_all
  fix i assume fk: "foreign_keys_valid db" and i: "i \<in> set (created_ids r)"
  have n: "i \<notin> set (ids BookE db)" using s i by auto
  show "linked Books_1 snd fst i db_b = []" and "linked Books fst snd i db_b = []"
    using fresh_unlinked(1) [OF fk _ _ n, of db_b] s by simp_all
next
  assume b: "get_db (bulk_create_author fa aitems) db = (Inr ra, db_a)"
  note s = bulk_create_author_success [OF b]
  show "books_1 db_a = books_1 db" and "tables.books db_a = tables.books db"
    using s by simp_all
  fix i assume fk: "foreign_keys_valid db" and i: "i \<in> set (created_ids ra)"
  have n: "i \<notin> set (ids AuthorE db)" using s i by auto
  show "linked Books_1 fst snd i db_a = []"
    using fresh_unlinked(2) [OF fk _ _ n, of db_a] s by simp
next
  assume b: "get_db (bulk_create_library fl litems) db = (Inr rl, db_l)"
  note s = bulk_create_library_success [OF b]
  show "books_1 db_l = books_1 db" and "tables.books db_l = tables.books db"
    using s by simp_all
  fix i assume fk: "foreign_keys_valid db" and i: "i \<in> set (created_ids rl)"
  have n: "i \<notin> set (ids LibraryE db)" using s i by auto
  show "linked Books snd fst i db_l = []"
    using fresh_unlinked(3) [OF fk _ _ n, of db_l] s by simp
next
  show "bulk_create_book fb
        (map (\<lambda>it. it\<lparr>authors := xs it, BookCreate.library := ys it\<rparr>) items) s
       = bulk_create_book fb items s"
    unfolding bulk_create_book_eq
    by (rule bulk_create_map) (simp add: fun_eq_iff add_flush_Book_def)
  show "bulk_create_author fa (map (\<lambda>it. it\<lparr>AuthorCreate.books := zs it\<rparr>) aitems) s
       = bulk_create_author fa aitems s"
    unfolding bulk_create_author_eq
    by (rule bulk_create_map) (simp add: fun_eq_iff add_flush_Author_def)
  show "bulk_create_library fl (map (\<lambda>it. it\<lparr>LibraryCreate.books := ws it\<rparr>) litems) s
       = bulk_create_library fl litems s"
    unfolding bulk_create_library_eq
    by (rule bulk_create_map) (simp add: fun_eq_iff add_flush_Library_def)
next
  assume "\<forall>a. fa a = None"
  then show "\<exists>r. fst (get_db (bulk_create_author fa aitems) db) = Inr r
             \<and> created_count r = length aitems"
    using bulk_create_author_accepts [of fa aitems db] by simp
qed


theorem C9_bulk_create_ignores_relations_witness:
  "foreign_keys_valid db0
   \<and> get_db (bulk_create_author (\<lambda>a. None)
         [\<lparr>AuthorCreate.name = ''N'', books = []\<rparr>,
          \<lparr>AuthorCreate.name = ''M'', books = [7, 99]\<rparr>]) db0
      = (Inr \<lparr>created_count = 2, created_ids = [4, 5],
              message = ''Successfully created 2 Author entities''\<rparr>,
         db0\<lparr>tables.author := tables.author db0 @
               [\<lparr>Author.id = 4, name = ''N''\<rparr>, \<lparr>Author.id = 5, name = ''M''\<rparr>]\<rparr>)
   \<and> books_1 (db0\<lparr>tables.author := tables.author db0 @
               [\<lparr>Author.id = 4, name = ''N''\<rparr>, \<lparr>Author.id = 5, name = ''M''\<rparr>]\<rparr>) = books_1 db0
   \<and> linked Books_1 fst snd 4 (db0\<lparr>tables.author := tables.author db0 @
               [\<lparr>Author.id = 4, name = ''N''\<rparr>, \<lparr>Author.id = 5, name = ''M''\<rparr>]\<rparr>) = []
   \<and> linked Books_1 fst snd 5 (db0\<lparr>tables.author := tables.author db0 @
               [\<lparr>Author.id = 4, name = ''N''\<rparr>, \<lparr>Author.id = 5, name = ''M''\<rparr>]\<rparr>) = []
   \<and> get_db (create_author \<lparr>AuthorCreate.name = ''N'', books = []\<rparr>) db0
      = (Inl (HTTPException 400 (Text ''At least 1 Book(s) required'')), db0)"
proof -
  let ?items = "[\<lparr>AuthorCreate.name = ''N'', books = []\<rparr>,
          \<lparr>AuthorCreate.name = ''M'', books = [7, 99]\<rparr>]"
  let ?r = "\<lparr>created_count = 2, created_ids = [4, 5],
              message = ''Successfully created 2 Author entities''\<rparr>"
  let ?d = "db0\<lparr>tables.author := tables.author db0 @
               [\<lparr>Author.id = 4, name = ''N''\<rparr>, \<lparr>Author.id = 5, name = ''M''\<rparr>]\<rparr>"
  have fk: "foreign_keys_valid db0" by (simp add: foreign_keys_valid_def db0_def)
  have e: "get_db (bulk_create_author (\<lambda>a. None) ?items) db0 = (Inr ?r, ?d)"
    by code_simp
  have c: "get_db (create_author \<lparr>AuthorCreate.name = ''N'', books = []\<rparr>) db0
      = (Inl (HTTPException 400 (Text ''At least 1 Book(s) required'')), db0)"
    by (simp add: get_db_def create_author_def SessionLocal_def)
  show ?thesis
    using C9_bulk_create_ignores_relations [where fa = "\<lambda>a. None" and aitems = ?items
        and db = db0 and ra = ?r and db_a = ?d] fk e c
    by simp
qed

end
